theory Spec2Isabelle
  imports Complex_Main "HOL-Library.Word"
begin

section \<open>Data model of the BlindOracle market contract\<close>

text \<open>
  The Solidity contract \<open>BlindOracle\<close> is embedded as a record of its storage and one
  function per entry point. A \<open>require\<close> that fails, a checked-arithmetic panic and a
  failed external call all revert the transaction: the function returns \<open>Inl\<close> of the
  error and no state. Unsigned machine integers are words of their width; arithmetic of
  Solidity 0.8 is checked, so every addition or multiplication that could leave the range
  is preceded by the test that makes it panic. Events and the access grants on ciphertexts
  (\<open>FHE.allow\<close>, \<open>FHE.allowThis\<close>) are left out: no operation of the contract reads
  them. Transactions are serialized; a call does not re-enter the contract while ether is
  being sent.
\<close>

type_synonym address = "160 word"
type_synonym uint256 = "256 word"
type_synonym uint64 = "64 word"
type_synonym uint8 = "8 word"

text \<open>
  Modelled from the spec: the confidential-value capability (the external library
  \<open>@fhevm/solidity\<close>, imported by the contract and not part of the repository). A
  confidential integer is represented by the plaintext it encrypts; the homomorphic
  operations are the wrapping operations of that width on the plaintexts.
\<close>

type_synonym euint8 = "8 word"
type_synonym euint64 = "64 word"

datatype Phase = BlindCommitment | Aggregating | AwaitingDecryption | Settled

datatype MarketType = Event | Price

datatype Asset = ETH | BTC | SOL

datatype error =
    InvalidPhaseForOperation    \<comment> \<open>modifier onlyInPhase: "Invalid phase for this operation"\<close>
  | OnlyOwner                   \<comment> \<open>modifier onlyOwner\<close>
  | InvalidOracleAddress
  | InvalidTargetPrice
  | CommitmentPeriodEnded       \<comment> \<open>"Commitment period has ended" (the spec's WindowClosed)\<close>
  | AlreadyCommitted
  | MustSendETH                 \<comment> \<open>"Must send ETH with commitment" (the spec's NoValue)\<close>
  | OwnerCannotParticipate
  | InvalidInputProof           \<comment> \<open>FHE.fromExternal rejects the proof\<close>
  | NoCommitmentFound
  | CommitmentPeriodNotEnded
  | NoParticipants
  | BetsNotAggregated
  | InvalidRequestID            \<comment> \<open>"Invalid request ID" (the spec's UnknownRequest)\<close>
  | InvalidPhase                \<comment> \<open>"Invalid phase" of the two callbacks\<close>
  | NoHandleFoundForRequestID   \<comment> \<open>FHE.checkSignatures: no request under this id\<close>
  | InvalidKMSSignatures        \<comment> \<open>FHE.checkSignatures rejects the proof (ProofInvalid)\<close>
  | DecodeError                 \<comment> \<open>abi.decode reverts\<close>
  | OnlyForEventMarkets
  | SettlementAlreadyProposed
  | StakeAlreadyDeposited
  | InsufficientStake
  | AlreadySettled
  | EventNotEnded
  | MustDepositStakeFirst
  | SettlementNotProposed
  | ChallengePeriodNotEnded
  | StakeReturnFailed
  | NoSettlementToChallenge
  | ChallengePeriodEnded
  | MustBeParticipant
  | OnlyForPriceMarkets
  | OracleNotSet
  | MustCompleteAggregation
  | NoBetsToSettle
  | PriceNotAvailable
  | PriceTooOld
  | MarketNotSettledYet
  | AlreadyClaimedRewards
  | DidNotParticipate
  | MarketNotSettled
  | UserNotFound                \<comment> \<open>"User not found for request"\<close>
  | AlreadyClaimed
  | YouLost                     \<comment> \<open>"You lost" (the spec's Lost)\<close>
  | ETHTransferFailed
  | Panic                       \<comment> \<open>checked arithmetic: overflow, underflow, division by zero\<close>

record Commitment =
  encryptedPrediction :: euint8
  encryptedAmount :: euint64
  hasCommitted :: bool

text \<open>
  The storage of one market. A Solidity mapping is a total function with the zero value
  as default. After the contract's own variables come the two pieces of storage that the
  confidential-value library keeps inside the contract (\<open>counterRequest\<close>,
  \<open>requestedHandles\<close>), the ether balance of the contract, and the log of the ether
  transfers the contract has made (most recent first).
\<close>

record market =
  currentPhase :: Phase
  marketType :: MarketType
  owner :: address
  eventDescription :: string
  commitmentDeadline :: uint256
  eventDeadline :: uint256
  priceOracle :: address
  targetAsset :: Asset
  targetPrice :: uint256
  commitments :: "address \<Rightarrow> Commitment"
  participants :: "address list"
  encryptedTotalYes :: euint64
  encryptedTotalNo :: euint64
  aggregateDecryptionRequestId :: uint256
  isAggregated :: bool
  totalYesAmount :: uint256
  totalNoAmount :: uint256
  isSettled :: bool
  finalOutcome :: bool
  settlementProposedTime :: uint256
  proposedOutcome :: bool
  isSettlementProposed :: bool
  ownerStake :: uint256
  hasClaimed :: "address \<Rightarrow> bool"
  claimRequestIds :: "address \<Rightarrow> uint256"
  counterRequest :: uint256
  requestedHandles :: "uint256 \<Rightarrow> uint256 list"
  balance :: uint256
  transfers :: "(address \<times> uint256) list"

text \<open>
  What a call sees of its surroundings: the caller, the block time, whether an address
  accepts a plain ether transfer (an externally owned account always does, a contract may
  revert), and the answer of the price oracle's \<open>getPrice\<close> in this block. The value
  attached to a call is an argument of the payable functions only; the others are not
  payable and the model has no call to them with value.
\<close>

record env =
  msg_sender :: address
  block_timestamp :: uint256
  receives :: "address \<Rightarrow> bool"
  getPrice :: "Asset \<Rightarrow> error + (uint256 \<times> uint256)"

definition CHALLENGE_PERIOD :: uint256 where
  "CHALLENGE_PERIOD = 86400"

definition emptyCommitment :: Commitment where
  "emptyCommitment = \<lparr>encryptedPrediction = 0, encryptedAmount = 0, hasCommitted = False\<rparr>"

subsection \<open>The confidential-value capability\<close>

text \<open>
  Modelled from the spec: \<open>FHE.fromExternal\<close>. The proof bytes are abstracted to the
  verdict of the verifier; a rejected proof reverts.
\<close>

definition FHE_fromExternal :: "'a::len word \<Rightarrow> bool \<Rightarrow> error + 'a word" where
  "FHE_fromExternal ct proofOk = (if proofOk then Inr ct else Inl InvalidInputProof)"

text \<open>Modelled from the spec: \<open>FHE.add\<close>, \<open>FHE.sub\<close>, \<open>FHE.mul\<close> and the widening cast.\<close>

definition FHE_add :: "euint64 \<Rightarrow> euint64 \<Rightarrow> euint64" where
  "FHE_add a b = a + b"

definition FHE_mul :: "euint64 \<Rightarrow> euint64 \<Rightarrow> euint64" where
  "FHE_mul a b = a * b"

definition FHE_sub :: "euint8 \<Rightarrow> euint8 \<Rightarrow> euint8" where
  "FHE_sub a b = a - b"

definition FHE_asEuint64 :: "euint8 \<Rightarrow> euint64" where
  "FHE_asEuint64 a = ucast a"

text \<open>
  Modelled from the spec: \<open>FHE.requestDecryption\<close>. The capability returns a request
  identifier and remembers which ciphertexts the request is for. Identifiers come from a
  counter kept in the contract's storage, so no identifier is issued twice; the counter's
  increment is checked. A ciphertext handle is recorded as the ABI word that its decryption
  yields.
\<close>

definition FHE_requestDecryption :: "uint256 list \<Rightarrow> market \<Rightarrow> error + (uint256 \<times> market)" where
  "FHE_requestDecryption cts s =
     (if counterRequest s = - 1 then Inl Panic
      else Inr (counterRequest s,
                s\<lparr>requestedHandles := (requestedHandles s)(counterRequest s := cts),
                  counterRequest := counterRequest s + 1\<rparr>))"

text \<open>
  Modelled from the spec: \<open>FHE.checkSignatures\<close>, "verifies the accompanying
  cryptographic proof that cleartexts are the genuine decryption of the exact ciphertexts
  submitted in the request". The proof bytes are abstracted to whether they carry the
  decryption authority's signatures; the authority signs nothing but the decryption of
  the ciphertexts recorded for the request. \<open>None\<close> means the check passes.
\<close>

definition FHE_checkSignatures :: "uint256 \<Rightarrow> uint256 list \<Rightarrow> bool \<Rightarrow> market \<Rightarrow> error option" where
  "FHE_checkSignatures requestId cleartexts decryptionProof s =
     (if requestedHandles s requestId = [] then Some NoHandleFoundForRequestID
      else if decryptionProof \<and> cleartexts = requestedHandles s requestId then None
      else Some InvalidKMSSignatures)"

text \<open>
  \<open>abi.decode\<close> of the cleartext bytes, given as their 32-byte words: it needs a word
  for each component, rejects a word out of the component's range, and ignores what
  follows.
\<close>

definition abi_decode_uint64_uint64 :: "uint256 list \<Rightarrow> error + (uint64 \<times> uint64)" where
  "abi_decode_uint64_uint64 ws =
     (case ws of
        a # b # _ \<Rightarrow>
          (if unat a < 2 ^ 64 \<and> unat b < 2 ^ 64 then Inr (ucast a, ucast b) else Inl DecodeError)
      | _ \<Rightarrow> Inl DecodeError)"

definition abi_decode_uint8_uint64 :: "uint256 list \<Rightarrow> error + (uint8 \<times> uint64)" where
  "abi_decode_uint8_uint64 ws =
     (case ws of
        a # b # _ \<Rightarrow>
          (if unat a < 2 ^ 8 \<and> unat b < 2 ^ 64 then Inr (ucast a, ucast b) else Inl DecodeError)
      | _ \<Rightarrow> Inl DecodeError)"

subsection \<open>The price oracle\<close>

record PriceData =
  price :: uint256
  timestamp :: uint256
  updater :: address

definition MAX_PRICE_AGE :: uint256 where
  "MAX_PRICE_AGE = 86400"

text \<open>\<open>PriceOracle.getPrice\<close>: the stored price, unless none was set or it is stale.\<close>

definition PriceOracle_getPrice ::
  "(Asset \<Rightarrow> PriceData) \<Rightarrow> uint256 \<Rightarrow> Asset \<Rightarrow> error + (uint256 \<times> uint256)" where
  "PriceOracle_getPrice prices now asset =
     (let d = prices asset in
      if \<not> timestamp d > 0 then Inl PriceNotAvailable
      else if now < timestamp d then Inl Panic
      else if \<not> now - timestamp d \<le> MAX_PRICE_AGE then Inl PriceTooOld
      else Inr (price d, timestamp d))"

section \<open>The operations of the market\<close>

subsection \<open>Construction\<close>

definition constructor ::
  "env \<Rightarrow> MarketType \<Rightarrow> string \<Rightarrow> uint256 \<Rightarrow> uint256 \<Rightarrow> address \<Rightarrow> Asset \<Rightarrow> uint256
     \<Rightarrow> error + market" where
  "constructor e mt descr commitmentDuration eventDuration oracle asset target =
     (if unat (block_timestamp e) + unat commitmentDuration \<ge> 2 ^ 256 then Inl Panic
      else if unat (block_timestamp e + commitmentDuration) + unat eventDuration \<ge> 2 ^ 256
        then Inl Panic
      else if mt = Price \<and> oracle = 0 then Inl InvalidOracleAddress
      else if mt = Price \<and> \<not> target > 0 then Inl InvalidTargetPrice
      else Inr \<lparr>currentPhase = BlindCommitment,
                marketType = mt,
                owner = msg_sender e,
                eventDescription = descr,
                commitmentDeadline = block_timestamp e + commitmentDuration,
                eventDeadline = block_timestamp e + commitmentDuration + eventDuration,
                priceOracle = (if mt = Price then oracle else 0),
                targetAsset = (if mt = Price then asset else ETH),
                targetPrice = (if mt = Price then target else 0),
                commitments = (\<lambda>_. emptyCommitment),
                participants = [],
                encryptedTotalYes = 0,
                encryptedTotalNo = 0,
                aggregateDecryptionRequestId = 0,
                isAggregated = False,
                totalYesAmount = 0,
                totalNoAmount = 0,
                isSettled = False,
                finalOutcome = False,
                settlementProposedTime = 0,
                proposedOutcome = False,
                isSettlementProposed = False,
                ownerStake = 0,
                hasClaimed = (\<lambda>_. False),
                claimRequestIds = (\<lambda>_. 0),
                counterRequest = 0,
                requestedHandles = (\<lambda>_. []),
                balance = 0,
                transfers = []\<rparr>)"

subsection \<open>Phase 1: blind commitment\<close>

definition commitPrediction ::
  "env \<Rightarrow> uint256 \<Rightarrow> uint8 \<Rightarrow> uint64 \<Rightarrow> bool \<Rightarrow> bool \<Rightarrow> market \<Rightarrow> error + market" where
  "commitPrediction e msg_value encryptedPrediction' encryptedAmount' predictionProof amountProof s =
     (if currentPhase s \<noteq> BlindCommitment then Inl InvalidPhaseForOperation
      else if \<not> block_timestamp e < commitmentDeadline s then Inl CommitmentPeriodEnded
      else if hasCommitted (commitments s (msg_sender e)) then Inl AlreadyCommitted
      else if \<not> msg_value > 0 then Inl MustSendETH
      else if marketType s = Event \<and> msg_sender e = owner s then Inl OwnerCannotParticipate
      else case FHE_fromExternal encryptedPrediction' predictionProof of
        Inl err \<Rightarrow> Inl err
      | Inr prediction \<Rightarrow>
         (case FHE_fromExternal encryptedAmount' amountProof of
            Inl err \<Rightarrow> Inl err
          | Inr amount \<Rightarrow>
              Inr (s\<lparr>commitments := (commitments s)(msg_sender e :=
                         \<lparr>encryptedPrediction = prediction,
                          encryptedAmount = amount,
                          hasCommitted = True\<rparr>),
                     participants := participants s @ [msg_sender e],
                     balance := balance s + msg_value\<rparr>)))"

definition getMyCommitment :: "env \<Rightarrow> market \<Rightarrow> error + (euint8 \<times> euint64)" where
  "getMyCommitment e s =
     (if \<not> hasCommitted (commitments s (msg_sender e)) then Inl NoCommitmentFound
      else Inr (encryptedPrediction (commitments s (msg_sender e)),
                encryptedAmount (commitments s (msg_sender e))))"

subsection \<open>Phase 2: aggregation and decryption of the totals\<close>

text \<open>The loop of \<open>aggregateBets\<close> over the participants, in insertion order.\<close>

fun aggregateLoop ::
  "(address \<Rightarrow> Commitment) \<Rightarrow> address list \<Rightarrow> euint64 \<times> euint64 \<Rightarrow> euint64 \<times> euint64" where
  "aggregateLoop cm [] acc = acc"
| "aggregateLoop cm (participant # rest) (totalYes, totalNo) =
     (let prediction = encryptedPrediction (cm participant);
          amount = encryptedAmount (cm participant);
          isYes = prediction;
          isNo = FHE_sub 1 prediction;
          isYes64 = FHE_asEuint64 isYes;
          isNo64 = FHE_asEuint64 isNo;
          yesContribution = FHE_mul amount isYes64;
          noContribution = FHE_mul amount isNo64
      in aggregateLoop cm rest (FHE_add totalYes yesContribution, FHE_add totalNo noContribution))"

definition aggregateBets :: "env \<Rightarrow> market \<Rightarrow> error + market" where
  "aggregateBets e s =
     (if currentPhase s \<noteq> BlindCommitment then Inl InvalidPhaseForOperation
      else if \<not> block_timestamp e \<ge> commitmentDeadline s then Inl CommitmentPeriodNotEnded
      else if \<not> length (participants s) > 0 then Inl NoParticipants
      else case aggregateLoop (commitments s) (participants s) (0, 0) of
        (totalYes, totalNo) \<Rightarrow>
          Inr (s\<lparr>encryptedTotalYes := totalYes,
                 encryptedTotalNo := totalNo,
                 isAggregated := True,
                 currentPhase := Aggregating\<rparr>))"

definition requestAggregateDecryption :: "market \<Rightarrow> error + market" where
  "requestAggregateDecryption s =
     (if currentPhase s \<noteq> Aggregating then Inl InvalidPhaseForOperation
      else if \<not> isAggregated s then Inl BetsNotAggregated
      else case FHE_requestDecryption [ucast (encryptedTotalYes s), ucast (encryptedTotalNo s)] s of
        Inl err \<Rightarrow> Inl err
      | Inr (requestId, s1) \<Rightarrow>
          Inr (s1\<lparr>aggregateDecryptionRequestId := requestId,
                  currentPhase := AwaitingDecryption\<rparr>))"

definition callbackAggregateDecryption ::
  "uint256 \<Rightarrow> uint256 list \<Rightarrow> bool \<Rightarrow> market \<Rightarrow> error + market" where
  "callbackAggregateDecryption requestId cleartexts decryptionProof s =
     (if requestId \<noteq> aggregateDecryptionRequestId s then Inl InvalidRequestID
      else if currentPhase s \<noteq> AwaitingDecryption then Inl InvalidPhase
      else case FHE_checkSignatures requestId cleartexts decryptionProof s of
        Some err \<Rightarrow> Inl err
      | None \<Rightarrow>
         (case abi_decode_uint64_uint64 cleartexts of
            Inl err \<Rightarrow> Inl err
          | Inr (yesAmount, noAmount) \<Rightarrow>
              Inr (s\<lparr>totalYesAmount := ucast yesAmount,
                     totalNoAmount := ucast noAmount,
                     currentPhase := Settled\<rparr>)))"

subsection \<open>Phase 3: settlement\<close>

definition depositOwnerStake :: "env \<Rightarrow> uint256 \<Rightarrow> market \<Rightarrow> error + market" where
  "depositOwnerStake e msg_value s =
     (if msg_sender e \<noteq> owner s then Inl OnlyOwner
      else if currentPhase s \<noteq> Settled then Inl InvalidPhaseForOperation
      else if marketType s \<noteq> Event then Inl OnlyForEventMarkets
      else if isSettlementProposed s then Inl SettlementAlreadyProposed
      else if ownerStake s \<noteq> 0 then Inl StakeAlreadyDeposited
      else if unat (totalYesAmount s) + unat (totalNoAmount s) \<ge> 2 ^ 256 then Inl Panic
      else let totalPool = totalYesAmount s + totalNoAmount s;
               requiredStake = totalPool div 10
           in if \<not> msg_value \<ge> requiredStake then Inl InsufficientStake
              else Inr (s\<lparr>ownerStake := msg_value, balance := balance s + msg_value\<rparr>))"

definition proposeSettlement :: "env \<Rightarrow> bool \<Rightarrow> market \<Rightarrow> error + market" where
  "proposeSettlement e outcome s =
     (if msg_sender e \<noteq> owner s then Inl OnlyOwner
      else if currentPhase s \<noteq> Settled then Inl InvalidPhaseForOperation
      else if marketType s \<noteq> Event then Inl OnlyForEventMarkets
      else if isSettled s then Inl AlreadySettled
      else if isSettlementProposed s then Inl SettlementAlreadyProposed
      else if \<not> block_timestamp e \<ge> eventDeadline s then Inl EventNotEnded
      else if \<not> ownerStake s > 0 then Inl MustDepositStakeFirst
      else Inr (s\<lparr>proposedOutcome := outcome,
                  isSettlementProposed := True,
                  settlementProposedTime := block_timestamp e\<rparr>))"

text \<open>
  The stake goes back to the owner by a plain call, which fails when the balance does not
  cover it or the owner does not accept it. Calls are serialized: what the receiver does
  with the call is not part of the market.
\<close>

definition finalizeSettlement :: "env \<Rightarrow> market \<Rightarrow> error + market" where
  "finalizeSettlement e s =
     (if currentPhase s \<noteq> Settled then Inl InvalidPhaseForOperation
      else if marketType s \<noteq> Event then Inl OnlyForEventMarkets
      else if \<not> isSettlementProposed s then Inl SettlementNotProposed
      else if isSettled s then Inl AlreadySettled
      else if unat (settlementProposedTime s) + unat CHALLENGE_PERIOD \<ge> 2 ^ 256 then Inl Panic
      else if \<not> block_timestamp e \<ge> settlementProposedTime s + CHALLENGE_PERIOD
        then Inl ChallengePeriodNotEnded
      else let stakeToReturn = ownerStake s
           in if balance s < stakeToReturn \<or> \<not> receives e (owner s) then Inl StakeReturnFailed
              else Inr (s\<lparr>finalOutcome := proposedOutcome s,
                          isSettled := True,
                          ownerStake := 0,
                          balance := balance s - stakeToReturn,
                          transfers := (owner s, stakeToReturn) # transfers s\<rparr>))"

definition challengeSettlement :: "env \<Rightarrow> market \<Rightarrow> error + market" where
  "challengeSettlement e s =
     (if currentPhase s \<noteq> Settled then Inl InvalidPhaseForOperation
      else if \<not> isSettlementProposed s then Inl NoSettlementToChallenge
      else if isSettled s then Inl AlreadySettled
      else if unat (settlementProposedTime s) + unat CHALLENGE_PERIOD \<ge> 2 ^ 256 then Inl Panic
      else if \<not> block_timestamp e < settlementProposedTime s + CHALLENGE_PERIOD
        then Inl ChallengePeriodEnded
      else if \<not> hasCommitted (commitments s (msg_sender e)) then Inl MustBeParticipant
      else Inr s)"

definition settlePriceMarket :: "env \<Rightarrow> market \<Rightarrow> error + market" where
  "settlePriceMarket e s =
     (if marketType s \<noteq> Price then Inl OnlyForPriceMarkets
      else if isSettled s then Inl AlreadySettled
      else if \<not> block_timestamp e \<ge> eventDeadline s then Inl EventNotEnded
      else if priceOracle s = 0 then Inl OracleNotSet
      else if currentPhase s \<noteq> Settled then Inl MustCompleteAggregation
      else if \<not> (totalYesAmount s > 0 \<or> totalNoAmount s > 0) then Inl NoBetsToSettle
      else case getPrice e (targetAsset s) of
        Inl err \<Rightarrow> Inl err
      | Inr (currentPrice, _) \<Rightarrow>
          Inr (s\<lparr>finalOutcome := currentPrice \<ge> targetPrice s, isSettled := True\<rparr>))"

subsection \<open>Claims\<close>

definition claimRewards :: "env \<Rightarrow> market \<Rightarrow> error + market" where
  "claimRewards e s =
     (if currentPhase s \<noteq> Settled then Inl InvalidPhaseForOperation
      else if \<not> isSettled s then Inl MarketNotSettledYet
      else if hasClaimed s (msg_sender e) then Inl AlreadyClaimedRewards
      else if \<not> hasCommitted (commitments s (msg_sender e)) then Inl DidNotParticipate
      else case FHE_requestDecryption
                  [ucast (encryptedPrediction (commitments s (msg_sender e))),
                   ucast (encryptedAmount (commitments s (msg_sender e)))] s of
        Inl err \<Rightarrow> Inl err
      | Inr (requestId, s1) \<Rightarrow>
          Inr (s1\<lparr>claimRequestIds := (claimRequestIds s1)(msg_sender e := requestId)\<rparr>))"

text \<open>
  The search of \<open>callbackClaimRewards\<close> for the participant who holds the request id:
  the first one in insertion order, the zero address when there is none.
\<close>

fun findUser :: "(address \<Rightarrow> uint256) \<Rightarrow> uint256 \<Rightarrow> address list \<Rightarrow> address" where
  "findUser ids requestId [] = 0"
| "findUser ids requestId (p # rest) =
     (if ids p = requestId then p else findUser ids requestId rest)"

definition won :: "uint8 \<Rightarrow> bool \<Rightarrow> bool" where
  "won prediction outcome = ((prediction = 1 \<and> outcome) \<or> (prediction = 0 \<and> \<not> outcome))"

definition callbackClaimRewards ::
  "env \<Rightarrow> uint256 \<Rightarrow> uint256 list \<Rightarrow> bool \<Rightarrow> market \<Rightarrow> error + market" where
  "callbackClaimRewards e requestId cleartexts decryptionProof s =
     (if currentPhase s \<noteq> Settled then Inl InvalidPhase
      else if \<not> isSettled s then Inl MarketNotSettled
      else case FHE_checkSignatures requestId cleartexts decryptionProof s of
        Some err \<Rightarrow> Inl err
      | None \<Rightarrow>
         (let user = findUser (claimRequestIds s) requestId (participants s)
          in if user = 0 then Inl UserNotFound
             else if hasClaimed s user then Inl AlreadyClaimed
             else case abi_decode_uint8_uint64 cleartexts of
               Inl err \<Rightarrow> Inl err
             | Inr (prediction, amount) \<Rightarrow>
                (if \<not> won prediction (finalOutcome s) then Inl YouLost
                 else let userAmount = (ucast amount :: uint256);
                          totalWinningAmount =
                            (if finalOutcome s then totalYesAmount s else totalNoAmount s);
                          totalPool = balance s
                      in if unat userAmount * unat totalPool \<ge> 2 ^ 256 then Inl Panic
                         else if totalWinningAmount = 0 then Inl Panic
                         else let payout = (userAmount * totalPool) div totalWinningAmount
                              in if balance s < payout \<or> \<not> receives e user
                                   then Inl ETHTransferFailed
                                 else Inr (s\<lparr>hasClaimed := (hasClaimed s)(user := True),
                                             balance := balance s - payout,
                                             transfers := (user, payout) # transfers s\<rparr>))))"

section \<open>Transactions\<close>

text \<open>
  A call to the market, with the arguments the caller chooses. \<open>exec\<close> dispatches it. A
  reverted transaction leaves the market as it was: \<open>transact\<close> returns the state after
  the call together with the error, if any.
\<close>

datatype operation =
    CommitPrediction uint256 uint8 uint64 bool bool
  | AggregateBets
  | RequestAggregateDecryption
  | CallbackAggregateDecryption uint256 "uint256 list" bool
  | DepositOwnerStake uint256
  | ProposeSettlement bool
  | FinalizeSettlement
  | ChallengeSettlement
  | SettlePriceMarket
  | ClaimRewards
  | CallbackClaimRewards uint256 "uint256 list" bool

fun exec :: "env \<Rightarrow> operation \<Rightarrow> market \<Rightarrow> error + market" where
  "exec e (CommitPrediction v p a pp ap) s = commitPrediction e v p a pp ap s"
| "exec e AggregateBets s = aggregateBets e s"
| "exec e RequestAggregateDecryption s = requestAggregateDecryption s"
| "exec e (CallbackAggregateDecryption r c d) s = callbackAggregateDecryption r c d s"
| "exec e (DepositOwnerStake v) s = depositOwnerStake e v s"
| "exec e (ProposeSettlement b) s = proposeSettlement e b s"
| "exec e FinalizeSettlement s = finalizeSettlement e s"
| "exec e ChallengeSettlement s = challengeSettlement e s"
| "exec e SettlePriceMarket s = settlePriceMarket e s"
| "exec e ClaimRewards s = claimRewards e s"
| "exec e (CallbackClaimRewards r c d) s = callbackClaimRewards e r c d s"

definition transact :: "env \<Rightarrow> operation \<Rightarrow> market \<Rightarrow> market \<times> error option" where
  "transact e op s = (case exec e op s of Inl err \<Rightarrow> (s, Some err) | Inr s' \<Rightarrow> (s', None))"

fun run :: "(env \<times> operation) list \<Rightarrow> market \<Rightarrow> market" where
  "run [] s = s"
| "run ((e, op) # rest) s = run rest (fst (transact e op s))"

definition succeeds :: "error + 'a \<Rightarrow> bool" where
  "succeeds r = (case r of Inl _ \<Rightarrow> False | Inr _ \<Rightarrow> True)"

definition andThen :: "error + 'a \<Rightarrow> ('a \<Rightarrow> error + 'b) \<Rightarrow> error + 'b" where
  "andThen r f = (case r of Inl err \<Rightarrow> Inl err | Inr x \<Rightarrow> f x)"

definition nextPhase :: "Phase \<Rightarrow> Phase option" where
  "nextPhase p =
     (case p of
        BlindCommitment \<Rightarrow> Some Aggregating
      | Aggregating \<Rightarrow> Some AwaitingDecryption
      | AwaitingDecryption \<Rightarrow> Some Settled
      | Settled \<Rightarrow> None)"

section \<open>Runs of the market\<close>

text \<open>
  One call of \<open>commitPrediction\<close> with its surroundings and arguments, and a sequence of
  such calls, each of which has to succeed.
\<close>

record commitCall =
  call_env :: env
  call_value :: uint256
  call_prediction :: uint8
  call_amount :: uint64
  call_predictionProof :: bool
  call_amountProof :: bool

fun commitAll :: "commitCall list \<Rightarrow> market \<Rightarrow> error + market" where
  "commitAll [] s = Inr s"
| "commitAll (c # cs) s =
     (case commitPrediction (call_env c) (call_value c) (call_prediction c) (call_amount c)
             (call_predictionProof c) (call_amountProof c) s of
        Inl err \<Rightarrow> Inl err
      | Inr s' \<Rightarrow> commitAll cs s')"

text \<open>
  The life of a market up to the disclosure of the totals: construction, the commits,
  aggregation, the decryption request and its callback.
\<close>

definition marketRun ::
  "env \<Rightarrow> MarketType \<Rightarrow> string \<Rightarrow> uint256 \<Rightarrow> uint256 \<Rightarrow> address \<Rightarrow> Asset \<Rightarrow> uint256
     \<Rightarrow> commitCall list \<Rightarrow> env \<Rightarrow> uint256 \<Rightarrow> uint256 list \<Rightarrow> bool \<Rightarrow> error + market" where
  "marketRun e0 mt descr cd ed oracle asset target cs e1 requestId cleartexts decryptionProof =
     andThen (andThen (andThen (andThen
       (constructor e0 mt descr cd ed oracle asset target)
       (commitAll cs))
       (aggregateBets e1))
       requestAggregateDecryption)
       (callbackAggregateDecryption requestId cleartexts decryptionProof)"

definition committedTotal :: "commitCall list \<Rightarrow> nat" where
  "committedTotal cs = sum_list (map (\<lambda>c. unat (call_amount c)) cs)"

definition committedYes :: "commitCall list \<Rightarrow> nat" where
  "committedYes cs = sum_list (map (\<lambda>c. if call_prediction c = 1 then unat (call_amount c) else 0) cs)"

definition committedNo :: "commitCall list \<Rightarrow> nat" where
  "committedNo cs = sum_list (map (\<lambda>c. if call_prediction c = 0 then unat (call_amount c) else 0) cs)"

text \<open>
  \<open>claimRewards\<close> called \<open>n\<close> times in a row by the same caller, each call having to
  succeed.
\<close>

fun claimTimes :: "nat \<Rightarrow> env \<Rightarrow> market \<Rightarrow> error + market" where
  "claimTimes 0 e s = Inr s"
| "claimTimes (Suc n) e s =
     (case claimRewards e s of Inl err \<Rightarrow> Inl err | Inr s' \<Rightarrow> claimTimes n e s')"

text \<open>
  The states a market can be in: what the constructor returns, and what a successful
  operation makes of such a state.
\<close>

inductive reachable :: "market \<Rightarrow> bool" where
  deployed: "constructor e mt descr cd ed oracle asset target = Inr s \<Longrightarrow> reachable s"
| step: "reachable s \<Longrightarrow> exec e op s = Inr s' \<Longrightarrow> reachable s'"

section \<open>Notions used in the properties\<close>

text \<open>The position of a phase in the order of the phases.\<close>

definition phaseRank :: "Phase \<Rightarrow> nat" where
  "phaseRank p =
     (case p of BlindCommitment \<Rightarrow> 0 | Aggregating \<Rightarrow> 1 | AwaitingDecryption \<Rightarrow> 2 | Settled \<Rightarrow> 3)"

text \<open>Every address on the participants list has a stored commitment.\<close>

definition committedInv :: "market \<Rightarrow> bool" where
  "committedInv s = (\<forall>p \<in> set (participants s). hasCommitted (commitments s p))"

text \<open>
  The participant that a claim callback resolves its request id to, and the total of the
  winning side, as \<open>callbackClaimRewards\<close> computes them.
\<close>

definition claimant :: "market \<Rightarrow> uint256 \<Rightarrow> address" where
  "claimant s requestId = findUser (claimRequestIds s) requestId (participants s)"

definition totalWinningAmount :: "market \<Rightarrow> uint256" where
  "totalWinningAmount s = (if finalOutcome s then totalYesAmount s else totalNoAmount s)"

text \<open>
  Every claim-request id stored for a participant is below the request counter: it is
  either the default 0 of a participant who never asked, in a market that has issued its
  aggregate request, or an id that was issued.
\<close>

definition idsIssued :: "market \<Rightarrow> bool" where
  "idsIssued s = (\<forall>p \<in> set (participants s). unat (claimRequestIds s p) < unat (counterRequest s))"

text \<open>
  A stored claim-request id is the default 0 or was issued, and a market that has asked
  for the decryption of its totals has issued an id.
\<close>

definition idsInv :: "market \<Rightarrow> bool" where
  "idsInv s =
     ((\<forall>p. claimRequestIds s p = 0 \<or> unat (claimRequestIds s p) < unat (counterRequest s))
      \<and> (currentPhase s = AwaitingDecryption \<or> currentPhase s = Settled
            \<longrightarrow> counterRequest s \<noteq> 0))"

section \<open>Example markets\<close>

text \<open>
  The spec's first scenario: the deployer (address 1) opens an event market at time 1000
  with a commitment window of one hour and an event duration of thirty days; Alice (2),
  Bob (3) and Charlie (4) commit 1 ETH on YES, 2 ETH on NO and 1.5 ETH on YES.
\<close>

definition plainEnv :: "address \<Rightarrow> uint256 \<Rightarrow> env" where
  "plainEnv a t =
     \<lparr>msg_sender = a, block_timestamp = t, receives = (\<lambda>_. True),
      getPrice = (\<lambda>_. Inl PriceNotAvailable)\<rparr>"

definition bet :: "address \<Rightarrow> uint256 \<Rightarrow> uint256 \<Rightarrow> uint8 \<Rightarrow> uint64 \<Rightarrow> commitCall" where
  "bet a t v p amt =
     \<lparr>call_env = plainEnv a t, call_value = v, call_prediction = p, call_amount = amt,
      call_predictionProof = True, call_amountProof = True\<rparr>"

definition exampleBets :: "commitCall list" where
  "exampleBets =
     [bet 2 2000 1000000000000000000 1 1000000000000000000,
      bet 3 2100 2000000000000000000 0 2000000000000000000,
      bet 4 2200 1500000000000000000 1 1500000000000000000]"

definition exampleDeployed :: market where
  "exampleDeployed =
     \<lparr>currentPhase = BlindCommitment,
      marketType = Event,
      owner = 1,
      eventDescription = ''Will it rain?'',
      commitmentDeadline = 4600,
      eventDeadline = 2596600,
      priceOracle = 0,
      targetAsset = ETH,
      targetPrice = 0,
      commitments = (\<lambda>_. emptyCommitment),
      participants = [],
      encryptedTotalYes = 0,
      encryptedTotalNo = 0,
      aggregateDecryptionRequestId = 0,
      isAggregated = False,
      totalYesAmount = 0,
      totalNoAmount = 0,
      isSettled = False,
      finalOutcome = False,
      settlementProposedTime = 0,
      proposedOutcome = False,
      isSettlementProposed = False,
      ownerStake = 0,
      hasClaimed = (\<lambda>_. False),
      claimRequestIds = (\<lambda>_. 0),
      counterRequest = 0,
      requestedHandles = (\<lambda>_. []),
      balance = 0,
      transfers = []\<rparr>"

definition exampleCommitted :: market where
  "exampleCommitted =
     exampleDeployed
       \<lparr>commitments := (\<lambda>_. emptyCommitment)
          (2 := \<lparr>encryptedPrediction = 1, encryptedAmount = 1000000000000000000, hasCommitted = True\<rparr>,
           3 := \<lparr>encryptedPrediction = 0, encryptedAmount = 2000000000000000000, hasCommitted = True\<rparr>,
           4 := \<lparr>encryptedPrediction = 1, encryptedAmount = 1500000000000000000, hasCommitted = True\<rparr>),
        participants := [2, 3, 4],
        balance := 4500000000000000000\<rparr>"

definition exampleAggregated :: market where
  "exampleAggregated =
     exampleCommitted
       \<lparr>encryptedTotalYes := 2500000000000000000,
        encryptedTotalNo := 2000000000000000000,
        isAggregated := True,
        currentPhase := Aggregating\<rparr>"

definition exampleAwaiting :: market where
  "exampleAwaiting =
     exampleAggregated
       \<lparr>requestedHandles := (\<lambda>_. [])(0 := [2500000000000000000, 2000000000000000000]),
        counterRequest := 1,
        aggregateDecryptionRequestId := 0,
        currentPhase := AwaitingDecryption\<rparr>"

definition exampleRevealed :: market where
  "exampleRevealed =
     exampleAwaiting
       \<lparr>totalYesAmount := 2500000000000000000,
        totalNoAmount := 2000000000000000000,
        currentPhase := Settled\<rparr>"

text \<open>
  A market with two bets of 10 ETH on YES: together they exceed the 64-bit range of the
  encrypted accumulators (about 18.44 ETH in wei).
\<close>

definition heavyBets :: "commitCall list" where
  "heavyBets =
     [bet 2 2000 10000000000000000000 1 10000000000000000000,
      bet 3 2100 10000000000000000000 1 10000000000000000000]"

definition heavyRun :: "error + market" where
  "heavyRun = marketRun (plainEnv 1 1000) Event ''Will it rain?'' 3600 2592000 0 ETH 0
                heavyBets (plainEnv 5 5000) 0 [1553255926290448384, 0] True"

definition heavyRevealed :: market where
  "heavyRevealed =
     exampleDeployed
       \<lparr>commitments := (\<lambda>_. emptyCommitment)
          (2 := \<lparr>encryptedPrediction = 1, encryptedAmount = 10000000000000000000, hasCommitted = True\<rparr>,
           3 := \<lparr>encryptedPrediction = 1, encryptedAmount = 10000000000000000000, hasCommitted = True\<rparr>),
        participants := [2, 3],
        balance := 20000000000000000000,
        encryptedTotalYes := 1553255926290448384,
        encryptedTotalNo := 0,
        isAggregated := True,
        requestedHandles := (\<lambda>_. [])(0 := [1553255926290448384, 0]),
        counterRequest := 1,
        aggregateDecryptionRequestId := 0,
        totalYesAmount := 1553255926290448384,
        totalNoAmount := 0,
        currentPhase := Settled\<rparr>"

text \<open>
  The same market as a price market on ETH with target price 5000 (scaled by \<open>10 ^ 8\<close>),
  and an oracle whose prices were updated at time 2596000, ETH at 5200.
\<close>

definition examplePrices :: "Asset \<Rightarrow> PriceData" where
  "examplePrices asset =
     (case asset of
        ETH \<Rightarrow> \<lparr>price = 520000000000, timestamp = 2596000, updater = 1\<rparr>
      | BTC \<Rightarrow> \<lparr>price = 9500000000000, timestamp = 2596000, updater = 1\<rparr>
      | SOL \<Rightarrow> \<lparr>price = 18000000000, timestamp = 2596000, updater = 1\<rparr>)"

definition oracleEnv :: "address \<Rightarrow> uint256 \<Rightarrow> env" where
  "oracleEnv a t =
     \<lparr>msg_sender = a, block_timestamp = t, receives = (\<lambda>_. True),
      getPrice = PriceOracle_getPrice examplePrices t\<rparr>"

definition priceRevealed :: market where
  "priceRevealed =
     exampleRevealed
       \<lparr>marketType := Price, priceOracle := 9, targetAsset := ETH, targetPrice := 500000000000\<rparr>"

definition priceSettled :: market where
  "priceSettled = priceRevealed\<lparr>finalOutcome := True, isSettled := True\<rparr>"

text \<open>
  A market with a single bet of 15 wei on YES, up to the disclosure of the totals.
\<close>

definition smallBets :: "commitCall list" where
  "smallBets = [bet 2 2000 15 1 15]"

definition smallRevealed :: market where
  "smallRevealed =
     exampleDeployed
       \<lparr>commitments := (\<lambda>_. emptyCommitment)
          (2 := \<lparr>encryptedPrediction = 1, encryptedAmount = 15, hasCommitted = True\<rparr>),
        participants := [2],
        balance := 15,
        encryptedTotalYes := 15,
        encryptedTotalNo := 0,
        isAggregated := True,
        requestedHandles := (\<lambda>_. [])(0 := [15, 0]),
        counterRequest := 1,
        aggregateDecryptionRequestId := 0,
        totalYesAmount := 15,
        totalNoAmount := 0,
        currentPhase := Settled\<rparr>"

text \<open>
  The settled price market after Alice's claim request (request id 1), after Bob's claim
  request following it (request id 2), and after the callback that pays Alice.
\<close>

definition aliceRequested :: market where
  "aliceRequested =
     priceSettled
       \<lparr>requestedHandles := (\<lambda>_. [])
          (0 := [2500000000000000000, 2000000000000000000], 1 := [1, 1000000000000000000]),
        counterRequest := 2,
        claimRequestIds := (\<lambda>_. 0)(2 := 1)\<rparr>"

definition bobRequested :: market where
  "bobRequested =
     aliceRequested
       \<lparr>requestedHandles := (\<lambda>_. [])
          (0 := [2500000000000000000, 2000000000000000000], 1 := [1, 1000000000000000000],
           2 := [0, 2000000000000000000]),
        counterRequest := 3,
        claimRequestIds := (\<lambda>_. 0)(2 := 1, 3 := 2)\<rparr>"

definition alicePaid :: market where
  "alicePaid =
     aliceRequested
       \<lparr>hasClaimed := (\<lambda>_. False)(2 := True),
        balance := 2700000000000000000,
        transfers := [(2, 1800000000000000000)]\<rparr>"

text \<open>
  The settled price market after three claim requests by Alice in a row (request ids 1, 2
  and 3).
\<close>

definition aliceAskedThrice :: market where
  "aliceAskedThrice =
     priceSettled
       \<lparr>requestedHandles := (\<lambda>_. [])
          (0 := [2500000000000000000, 2000000000000000000], 1 := [1, 1000000000000000000],
           2 := [1, 1000000000000000000], 3 := [1, 1000000000000000000]),
        counterRequest := 4,
        claimRequestIds := (\<lambda>_. 0)(2 := 3)\<rparr>"

text \<open>
  A price market on ETH with two bets of 1 wei: Alice (2) on NO, Bob (3) on YES. The
  totals are disclosed as 1 and 1, the oracle price of 5200 settles the market on YES, and
  nobody has called \<open>claimRewards\<close>. Then the claim callback is run with request id 0
  and the cleartexts of the aggregate request.
\<close>

definition loserBets :: "commitCall list" where
  "loserBets = [bet 2 2000 1 0 1, bet 3 2100 1 1 1]"

definition loserRevealed :: market where
  "loserRevealed =
     exampleDeployed
       \<lparr>marketType := Price,
        priceOracle := 9,
        targetAsset := ETH,
        targetPrice := 500000000000,
        commitments := (\<lambda>_. emptyCommitment)
          (2 := \<lparr>encryptedPrediction = 0, encryptedAmount = 1, hasCommitted = True\<rparr>,
           3 := \<lparr>encryptedPrediction = 1, encryptedAmount = 1, hasCommitted = True\<rparr>),
        participants := [2, 3],
        balance := 2,
        encryptedTotalYes := 1,
        encryptedTotalNo := 1,
        isAggregated := True,
        requestedHandles := (\<lambda>_. [])(0 := [1, 1]),
        counterRequest := 1,
        aggregateDecryptionRequestId := 0,
        totalYesAmount := 1,
        totalNoAmount := 1,
        currentPhase := Settled\<rparr>"

definition loserSettled :: market where
  "loserSettled = loserRevealed\<lparr>finalOutcome := True, isSettled := True\<rparr>"

definition loserPaid :: market where
  "loserPaid =
     loserSettled
       \<lparr>hasClaimed := (\<lambda>_. False)(2 := True),
        balance := 0,
        transfers := [(2, 2)]\<rparr>"

section \<open>The example market is a run of the contract\<close>

lemma exampleDeployed_reached:
  "constructor (plainEnv 1 1000) Event ''Will it rain?'' 3600 2592000 0 ETH 0 = Inr exampleDeployed"
  by (simp add: constructor_def plainEnv_def exampleDeployed_def)

lemma exampleCommitted_reached: "commitAll exampleBets exampleDeployed = Inr exampleCommitted"
  by (simp add: exampleBets_def bet_def plainEnv_def commitPrediction_def exampleDeployed_def
      exampleCommitted_def FHE_fromExternal_def emptyCommitment_def)

lemma exampleAggregated_reached:
  "aggregateBets (plainEnv 5 5000) exampleCommitted = Inr exampleAggregated"
  by (simp add: aggregateBets_def plainEnv_def exampleDeployed_def exampleCommitted_def
      exampleAggregated_def FHE_add_def FHE_mul_def FHE_sub_def FHE_asEuint64_def)

lemma exampleAwaiting_reached: "requestAggregateDecryption exampleAggregated = Inr exampleAwaiting"
  by (simp add: requestAggregateDecryption_def FHE_requestDecryption_def exampleDeployed_def
      exampleCommitted_def exampleAggregated_def exampleAwaiting_def)

lemma exampleRevealed_reached:
  "callbackAggregateDecryption 0 [2500000000000000000, 2000000000000000000] True exampleAwaiting
     = Inr exampleRevealed"
  by (simp add: callbackAggregateDecryption_def FHE_checkSignatures_def
      abi_decode_uint64_uint64_def exampleDeployed_def exampleCommitted_def
      exampleAggregated_def exampleAwaiting_def exampleRevealed_def)

section \<open>Phase order\<close>

lemmas operation_defs =
  commitPrediction_def aggregateBets_def requestAggregateDecryption_def
  callbackAggregateDecryption_def depositOwnerStake_def proposeSettlement_def
  finalizeSettlement_def challengeSettlement_def settlePriceMarket_def claimRewards_def
  callbackClaimRewards_def FHE_requestDecryption_def FHE_fromExternal_def

lemma exec_phase:
  "exec e op s = Inr s' \<Longrightarrow>
     currentPhase s' = currentPhase s \<or> nextPhase (currentPhase s) = Some (currentPhase s')"
  by (cases op)
     (auto simp: operation_defs nextPhase_def Let_def
        split: if_splits sum.splits option.splits prod.splits)

lemma transact_phase:
  "currentPhase (fst (transact e op s)) = currentPhase s \<or>
   nextPhase (currentPhase s) = Some (currentPhase (fst (transact e op s)))"
proof (cases "exec e op s")
  case (Inl err)
  then show ?thesis by (simp add: transact_def)
next
  case (Inr s')
  then show ?thesis using exec_phase [OF Inr] by (simp add: transact_def)
qed

lemma nextPhase_rank: "nextPhase p = Some q \<Longrightarrow> phaseRank q = Suc (phaseRank p)"
  by (cases p) (auto simp: nextPhase_def phaseRank_def)

lemma run_phaseRank: "phaseRank (currentPhase s) \<le> phaseRank (currentPhase (run txs s))"
proof (induction txs arbitrary: s)
  case Nil
  show ?case by simp
next
  case (Cons tx txs)
  obtain e op where tx: "tx = (e, op)" by (cases tx)
  have "phaseRank (currentPhase s) \<le> phaseRank (currentPhase (fst (transact e op s)))"
    using transact_phase [of e op s] by (auto dest: nextPhase_rank)
  also have "\<dots> \<le> phaseRank (currentPhase (run txs (fst (transact e op s))))"
    by (rule Cons.IH)
  finally show ?case by (simp add: tx)
qed

text \<open>
  Claim C2. Every successful operation of the market leaves the phase where it is or moves
  it to the next one in the order BlindCommitment, Aggregating, AwaitingDecryption,
  Settled; along any sequence of transactions (reverted ones included) the phase never
  goes back.
\<close>

theorem C2_phase_monotone:
  "(exec e op s = Inr s' \<longrightarrow>
      currentPhase s' = currentPhase s \<or> nextPhase (currentPhase s) = Some (currentPhase s'))
   \<and> phaseRank (currentPhase s) \<le> phaseRank (currentPhase (run txs s))"
  using exec_phase [of e op s s'] run_phaseRank [of s txs] by blast

theorem C2_phase_monotone_witness:
  "exec (plainEnv 5 5000) AggregateBets exampleCommitted = Inr exampleAggregated
   \<and> nextPhase (currentPhase exampleCommitted) = Some (currentPhase exampleAggregated)
   \<and> phaseRank (currentPhase exampleCommitted)
       \<le> phaseRank (currentPhase (run [(plainEnv 5 5000, AggregateBets)] exampleCommitted))"
  using C2_phase_monotone [of "plainEnv 5 5000" AggregateBets exampleCommitted exampleAggregated
      "[(plainEnv 5 5000, AggregateBets)]"]
    exampleAggregated_reached
  by (simp add: nextPhase_def exampleAggregated_def exampleCommitted_def exampleDeployed_def)

section \<open>Conservation of the committed amounts\<close>

lemma unat_sum_list_word:
  "unat (sum_list ws :: 'a::len word) = sum_list (map unat ws) mod 2 ^ LENGTH('a)"
proof (induction ws)
  case Nil
  show ?case by simp
next
  case (Cons w ws)
  have "unat (w + sum_list ws) = (unat w + unat (sum_list ws)) mod 2 ^ LENGTH('a)"
    by (simp add: unat_word_ariths)
  also have "\<dots> = (unat w + sum_list (map unat ws) mod 2 ^ LENGTH('a)) mod 2 ^ LENGTH('a)"
    by (simp add: Cons.IH)
  also have "\<dots> = (unat w + sum_list (map unat ws)) mod 2 ^ LENGTH('a)"
    by (simp add: mod_add_right_eq)
  finally show ?case by simp
qed

lemma aggregateLoop_sums:
  "aggregateLoop cm ps (y, n) =
     (y + sum_list (map (\<lambda>p. encryptedAmount (cm p) * ucast (encryptedPrediction (cm p))) ps),
      n + sum_list (map (\<lambda>p. encryptedAmount (cm p) * ucast (1 - encryptedPrediction (cm p))) ps))"
  by (induction ps arbitrary: y n)
     (simp_all add: FHE_add_def FHE_mul_def FHE_sub_def FHE_asEuint64_def Let_def add.assoc)

lemma commitPrediction_effect:
  assumes "commitPrediction e v p a pp ap s = Inr s'"
  shows "participants s' = participants s @ [msg_sender e]"
    and "commitments s' = (commitments s)(msg_sender e :=
           \<lparr>encryptedPrediction = p, encryptedAmount = a, hasCommitted = True\<rparr>)"
    and "\<not> hasCommitted (commitments s (msg_sender e))"
  using assms
  by (auto simp: commitPrediction_def FHE_fromExternal_def split: if_splits)

lemma commitAll_stored:
  assumes "commitAll cs s = Inr s'" and "committedInv s"
  shows "map (\<lambda>p. f (commitments s' p)) (participants s') =
           map (\<lambda>p. f (commitments s p)) (participants s) @
           map (\<lambda>c. f \<lparr>encryptedPrediction = call_prediction c,
                        encryptedAmount = call_amount c, hasCommitted = True\<rparr>) cs"
  using assms
proof (induction cs arbitrary: s)
  case Nil
  then show ?case by simp
next
  case (Cons c cs)
  from Cons.prems(1) obtain s1 where
    step: "commitPrediction (call_env c) (call_value c) (call_prediction c) (call_amount c)
             (call_predictionProof c) (call_amountProof c) s = Inr s1"
    and rest: "commitAll cs s1 = Inr s'"
    by (auto split: sum.splits)
  note eff = commitPrediction_effect [OF step]
  have fresh: "msg_sender (call_env c) \<notin> set (participants s)"
    using eff(3) Cons.prems(2) by (auto simp: committedInv_def)
  have inv1: "committedInv s1"
    using Cons.prems(2) by (auto simp: committedInv_def eff(1,2))
  have "map (\<lambda>p. f (commitments s1 p)) (participants s1) =
          map (\<lambda>p. f (commitments s p)) (participants s) @
          [f \<lparr>encryptedPrediction = call_prediction c,
              encryptedAmount = call_amount c, hasCommitted = True\<rparr>]"
    using fresh by (auto simp: eff(1,2))
  with Cons.IH [OF rest inv1] show ?case by simp
qed

lemma bit_contribution:
  fixes a :: "64 word" and p :: "8 word"
  assumes "p = 0 \<or> p = 1"
  shows "unat (a * ucast p) = (if p = 1 then unat a else 0)"
    and "unat (a * ucast (1 - p)) = (if p = 0 then unat a else 0)"
  using assms by auto

lemma unat_ucast_64_256: "unat (ucast (w :: 64 word) :: 256 word) = unat w"
proof -
  have "unat w < 2 ^ 64" using unsigned_less [of w, where 'a=nat] by simp
  then have "unat w < 2 ^ 256" by (rule less_le_trans) simp
  then show ?thesis by (simp add: unsigned_ucast_eq take_bit_nat_eq_self)
qed

lemma ucast_64_256_64: "(ucast (ucast (w :: 64 word) :: 256 word) :: 64 word) = w"
  by (rule ucast_up_ucast_id) (simp add: is_up)

lemma unat_lt_64: "unat (w :: 64 word) < 2 ^ 64"
  using unsigned_less [of w, where 'a=nat] by simp

lemma constructor_fresh:
  "constructor e mt d cd ed orc asset tp = Inr s \<Longrightarrow> participants s = [] \<and> counterRequest s = 0"
  by (auto simp: constructor_def split: if_splits)

lemma aggregateBets_totals:
  assumes "aggregateBets e s = Inr s'"
  shows "encryptedTotalYes s' =
           sum_list (map (\<lambda>p. encryptedAmount (commitments s p)
                               * ucast (encryptedPrediction (commitments s p))) (participants s))"
    and "encryptedTotalNo s' =
           sum_list (map (\<lambda>p. encryptedAmount (commitments s p)
                               * ucast (1 - encryptedPrediction (commitments s p))) (participants s))"
  using assms by (auto simp: aggregateBets_def aggregateLoop_sums split: if_splits)

lemma requestAggregateDecryption_handles:
  assumes "requestAggregateDecryption s = Inr s'"
  shows "requestedHandles s' (aggregateDecryptionRequestId s') =
           [ucast (encryptedTotalYes s), ucast (encryptedTotalNo s)]"
  using assms
  by (auto simp: requestAggregateDecryption_def FHE_requestDecryption_def split: if_splits)

lemma callbackAggregateDecryption_totals:
  assumes "callbackAggregateDecryption requestId cleartexts decryptionProof s = Inr s'"
    and "requestedHandles s (aggregateDecryptionRequestId s) = [ucast y, ucast n]"
  shows "unat (totalYesAmount s') = unat (y :: 64 word)"
    and "unat (totalNoAmount s') = unat (n :: 64 word)"
  using assms
  by (auto simp: callbackAggregateDecryption_def FHE_checkSignatures_def
        abi_decode_uint64_uint64_def unat_ucast_64_256 ucast_64_256_64
        split: if_splits option.splits)

lemma committed_split:
  assumes "\<forall>c \<in> set cs. call_prediction c = 0 \<or> call_prediction c = 1"
  shows "committedYes cs + committedNo cs = committedTotal cs"
  using assms by (induction cs) (auto simp: committedYes_def committedNo_def committedTotal_def)

lemma marketRun_totals:
  assumes run: "marketRun e0 mt descr cd ed orc asset tp cs e1 requestId cleartexts prf = Inr s"
    and bits: "\<forall>c \<in> set cs. call_prediction c = 0 \<or> call_prediction c = 1"
  shows "unat (totalYesAmount s) = committedYes cs mod 2 ^ 64"
    and "unat (totalNoAmount s) = committedNo cs mod 2 ^ 64"
proof -
  from run obtain s0 s1 s2 s3 where
    c0: "constructor e0 mt descr cd ed orc asset tp = Inr s0" and
    c1: "commitAll cs s0 = Inr s1" and
    c2: "aggregateBets e1 s1 = Inr s2" and
    c3: "requestAggregateDecryption s2 = Inr s3" and
    c4: "callbackAggregateDecryption requestId cleartexts prf s3 = Inr s"
    by (auto simp: marketRun_def andThen_def split: sum.splits)
  have inv0: "committedInv s0" using constructor_fresh [OF c0] by (simp add: committedInv_def)
  have stored: "\<And>f. map (\<lambda>p. f (commitments s1 p)) (participants s1) =
      map (\<lambda>c. f \<lparr>encryptedPrediction = call_prediction c,
                   encryptedAmount = call_amount c, hasCommitted = True\<rparr>) cs"
    using commitAll_stored [OF c1 inv0] constructor_fresh [OF c0] by simp
  have yes: "encryptedTotalYes s2 = sum_list (map (\<lambda>c. call_amount c * ucast (call_prediction c)) cs)"
    using aggregateBets_totals(1) [OF c2]
      stored [of "\<lambda>c. encryptedAmount c * ucast (encryptedPrediction c)"] by simp
  have no: "encryptedTotalNo s2 = sum_list (map (\<lambda>c. call_amount c * ucast (1 - call_prediction c)) cs)"
    using aggregateBets_totals(2) [OF c2]
      stored [of "\<lambda>c. encryptedAmount c * ucast (1 - encryptedPrediction c)"] by simp
  note h = requestAggregateDecryption_handles [OF c3]
  have "unat (totalYesAmount s) = unat (encryptedTotalYes s2)"
    by (rule callbackAggregateDecryption_totals(1) [OF c4 h])
  also have "\<dots> = sum_list (map (\<lambda>c. unat (call_amount c * ucast (call_prediction c))) cs) mod 2 ^ 64"
    by (simp add: yes unat_sum_list_word comp_def)
  also have "map (\<lambda>c. unat (call_amount c * ucast (call_prediction c))) cs =
      map (\<lambda>c. if call_prediction c = 1 then unat (call_amount c) else 0) cs"
    using bits by (intro map_cong refl) (simp add: bit_contribution(1))
  finally show "unat (totalYesAmount s) = committedYes cs mod 2 ^ 64"
    by (simp add: committedYes_def)
  have "unat (totalNoAmount s) = unat (encryptedTotalNo s2)"
    by (rule callbackAggregateDecryption_totals(2) [OF c4 h])
  also have "\<dots> = sum_list (map (\<lambda>c. unat (call_amount c * ucast (1 - call_prediction c))) cs) mod 2 ^ 64"
    by (simp add: no unat_sum_list_word comp_def)
  also have "map (\<lambda>c. unat (call_amount c * ucast (1 - call_prediction c))) cs =
      map (\<lambda>c. if call_prediction c = 0 then unat (call_amount c) else 0) cs"
    using bits by (intro map_cong refl) (simp add: bit_contribution(2))
  finally show "unat (totalNoAmount s) = committedNo cs mod 2 ^ 64"
    by (simp add: committedNo_def)
qed

text \<open>
  Claim C1, as amended. After any successful commits, aggregation, decryption request and
  callback of a freshly constructed market, with every committed prediction 0 or 1, the
  disclosed totals are the committed YES and NO amounts modulo \<open>2 ^ 64\<close>; their sum is the
  sum of all committed amounts whenever that sum is below \<open>2 ^ 64\<close>.
\<close>

theorem C1_conservation_below_wrap:
  assumes "marketRun e0 mt descr cd ed orc asset tp cs e1 requestId cleartexts prf = Inr s"
    and "\<forall>c \<in> set cs. call_prediction c = 0 \<or> call_prediction c = 1"
  shows "unat (totalYesAmount s) = committedYes cs mod 2 ^ 64
       \<and> unat (totalNoAmount s) = committedNo cs mod 2 ^ 64
       \<and> (committedTotal cs < 2 ^ 64 \<longrightarrow>
            unat (totalYesAmount s) + unat (totalNoAmount s) = committedTotal cs)"
proof -
  note t = marketRun_totals [OF assms]
  have split: "committedYes cs + committedNo cs = committedTotal cs"
    by (rule committed_split [OF assms(2)])
  show ?thesis
  proof (intro conjI impI)
    assume small: "committedTotal cs < 2 ^ 64"
    then have "committedYes cs < 2 ^ 64" "committedNo cs < 2 ^ 64" using split by linarith+
    then show "unat (totalYesAmount s) + unat (totalNoAmount s) = committedTotal cs"
      using t split by simp
  qed (rule t)+
qed

lemma heavy_commits:
  "commitAll heavyBets exampleDeployed =
     Inr (exampleDeployed
       \<lparr>commitments := (\<lambda>_. emptyCommitment)
          (2 := \<lparr>encryptedPrediction = 1, encryptedAmount = 10000000000000000000, hasCommitted = True\<rparr>,
           3 := \<lparr>encryptedPrediction = 1, encryptedAmount = 10000000000000000000, hasCommitted = True\<rparr>),
        participants := [2, 3],
        balance := 20000000000000000000\<rparr>)"
  by (simp add: heavyBets_def bet_def plainEnv_def commitPrediction_def exampleDeployed_def
      FHE_fromExternal_def emptyCommitment_def)

lemma heavyRun_reached: "heavyRun = Inr heavyRevealed"
  unfolding heavyRun_def marketRun_def
  by (simp add: andThen_def exampleDeployed_reached heavy_commits)
     (simp add: exampleDeployed_def aggregateBets_def plainEnv_def FHE_add_def FHE_mul_def
        FHE_sub_def FHE_asEuint64_def requestAggregateDecryption_def FHE_requestDecryption_def
        callbackAggregateDecryption_def FHE_checkSignatures_def abi_decode_uint64_uint64_def
        heavyRevealed_def emptyCommitment_def)

text \<open>
  Two bets of 10 ETH on YES: the run succeeds, the predictions are bits, and the disclosed
  totals add up to less than what was committed, because the encrypted sum wrapped.
\<close>

theorem C1_counterexample:
  "heavyRun = Inr heavyRevealed
   \<and> map call_prediction heavyBets = [1, 1]
   \<and> committedTotal heavyBets = 20000000000000000000
   \<and> unat (totalYesAmount heavyRevealed) + unat (totalNoAmount heavyRevealed)
       = 1553255926290448384
   \<and> unat (totalYesAmount heavyRevealed) + unat (totalNoAmount heavyRevealed)
       \<noteq> committedTotal heavyBets"
  by (simp add: heavyRun_reached)
     (simp add: heavyBets_def bet_def committedTotal_def heavyRevealed_def exampleDeployed_def)

theorem C1_conservation_below_wrap_witness:
  "marketRun (plainEnv 1 1000) Event ''Will it rain?'' 3600 2592000 0 ETH 0
      exampleBets (plainEnv 5 5000) 0 [2500000000000000000, 2000000000000000000] True
     = Inr exampleRevealed
   \<and> map call_prediction exampleBets = [1, 0, 1]
   \<and> committedTotal exampleBets < 2 ^ 64
   \<and> unat (totalYesAmount exampleRevealed) + unat (totalNoAmount exampleRevealed)
       = committedTotal exampleBets"
proof -
  have r: "marketRun (plainEnv 1 1000) Event ''Will it rain?'' 3600 2592000 0 ETH 0
      exampleBets (plainEnv 5 5000) 0 [2500000000000000000, 2000000000000000000] True
     = Inr exampleRevealed"
    by (simp add: marketRun_def andThen_def exampleDeployed_reached exampleCommitted_reached
        exampleAggregated_reached exampleAwaiting_reached exampleRevealed_reached)
  have b: "\<forall>c \<in> set exampleBets. call_prediction c = 0 \<or> call_prediction c = 1"
    by (simp add: exampleBets_def bet_def)
  have t: "committedTotal exampleBets < 2 ^ 64"
    by (simp add: exampleBets_def bet_def committedTotal_def)
  have p: "map call_prediction exampleBets = [1, 0, 1]"
    by (simp add: exampleBets_def bet_def)
  show ?thesis using C1_conservation_below_wrap [OF r b] r p t by blast
qed

section \<open>Binding of the aggregate callback to its request\<close>

lemma callbackAggregateDecryption_other_id:
  "requestId \<noteq> aggregateDecryptionRequestId s \<Longrightarrow>
     callbackAggregateDecryption requestId cleartexts decryptionProof s = Inl InvalidRequestID"
  by (simp add: callbackAggregateDecryption_def)

lemma callbackAggregateDecryption_again:
  assumes "callbackAggregateDecryption requestId cleartexts decryptionProof s = Inr s'"
  shows "callbackAggregateDecryption requestId' cleartexts' decryptionProof' s' =
           Inl (if requestId' = requestId then InvalidPhase else InvalidRequestID)"
    and "currentPhase s' = Settled"
  using assms
  by (auto simp: callbackAggregateDecryption_def split: if_splits option.splits sum.splits)

lemma exec_Settled_totals:
  assumes "exec e op s = Inr s'" and "currentPhase s = Settled"
  shows "currentPhase s' = Settled \<and> totalYesAmount s' = totalYesAmount s
           \<and> totalNoAmount s' = totalNoAmount s"
  using assms
  by (cases op)
     (auto simp: operation_defs Let_def split: if_splits sum.splits option.splits prod.splits)

lemma run_Settled_totals:
  "currentPhase s = Settled \<Longrightarrow>
     currentPhase (run txs s) = Settled \<and> totalYesAmount (run txs s) = totalYesAmount s
       \<and> totalNoAmount (run txs s) = totalNoAmount s"
proof (induction txs arbitrary: s)
  case Nil
  then show ?case by simp
next
  case (Cons tx txs)
  obtain e op where tx: "tx = (e, op)" by (cases tx)
  let ?s1 = "fst (transact e op s)"
  have s1: "currentPhase ?s1 = Settled \<and> totalYesAmount ?s1 = totalYesAmount s
              \<and> totalNoAmount ?s1 = totalNoAmount s"
  proof (cases "exec e op s")
    case (Inl err)
    then show ?thesis using Cons.prems by (simp add: transact_def)
  next
    case (Inr s')
    then show ?thesis using exec_Settled_totals [OF Inr Cons.prems] by (simp add: transact_def)
  qed
  then show ?case using Cons.IH [of ?s1] by (simp add: tx)
qed

text \<open>
  Claim C3, as amended. A callback with an id other than the pending one fails with
  "Invalid request ID", whatever the cleartexts and the proof. After a successful callback
  every further callback fails: with "Invalid request ID" for another id, with "Invalid
  phase" for the same id (the pending id is not cleared, the phase guard rejects it); and no
  later transaction changes the disclosed totals.
\<close>

theorem C3_callback_binding:
  "(requestId0 \<noteq> aggregateDecryptionRequestId s \<longrightarrow>
      callbackAggregateDecryption requestId0 cleartexts0 proof0 s = Inl InvalidRequestID)
   \<and> (callbackAggregateDecryption requestId cleartexts decryptionProof s = Inr s' \<longrightarrow>
        callbackAggregateDecryption requestId' cleartexts' decryptionProof' s' =
          Inl (if requestId' = requestId then InvalidPhase else InvalidRequestID)
        \<and> totalYesAmount (run txs s') = totalYesAmount s'
        \<and> totalNoAmount (run txs s') = totalNoAmount s')"
  using callbackAggregateDecryption_other_id [of requestId0 s cleartexts0 proof0]
    callbackAggregateDecryption_again [of requestId cleartexts decryptionProof s s']
    run_Settled_totals [of s' txs]
  by blast

theorem C3_callback_binding_witness:
  "(7 \<noteq> aggregateDecryptionRequestId exampleAwaiting
     \<and> callbackAggregateDecryption 7 [2500000000000000000, 2000000000000000000] True exampleAwaiting
         = Inl InvalidRequestID)
   \<and> callbackAggregateDecryption 0 [2500000000000000000, 2000000000000000000] True exampleAwaiting
       = Inr exampleRevealed
   \<and> callbackAggregateDecryption 0 [2500000000000000000, 2000000000000000000] True exampleRevealed
       = Inl InvalidPhase
   \<and> totalYesAmount (run [(plainEnv 5 6000,
         CallbackAggregateDecryption 0 [1, 1] True)] exampleRevealed)
       = totalYesAmount exampleRevealed"
proof -
  have ne: "7 \<noteq> aggregateDecryptionRequestId exampleAwaiting"
    by (simp add: exampleAwaiting_def)
  show ?thesis
    using C3_callback_binding [of 7 exampleAwaiting "[2500000000000000000, 2000000000000000000]"
        True 0 "[2500000000000000000, 2000000000000000000]" True exampleRevealed 0
        "[2500000000000000000, 2000000000000000000]" True
        "[(plainEnv 5 6000, CallbackAggregateDecryption 0 [1, 1] True)]"]
      ne exampleRevealed_reached
    by simp
qed

text \<open>
  The claim as stated fails for the same id: after the successful callback with id 0 the
  repeated callback with id 0 passes the request-id check and is rejected by the phase
  check.
\<close>

theorem C3_counterexample:
  "callbackAggregateDecryption 0 [2500000000000000000, 2000000000000000000] True exampleAwaiting
     = Inr exampleRevealed
   \<and> 0 = aggregateDecryptionRequestId exampleRevealed
   \<and> callbackAggregateDecryption 0 [2500000000000000000, 2000000000000000000] True exampleRevealed
       = Inl InvalidPhase
   \<and> callbackAggregateDecryption 0 [2500000000000000000, 2000000000000000000] True exampleRevealed
       \<noteq> Inl InvalidRequestID"
  by (simp add: exampleRevealed_reached)
     (simp add: callbackAggregateDecryption_def exampleRevealed_def exampleAwaiting_def)

section \<open>A second commit\<close>

lemma commitPrediction_second:
  assumes "hasCommitted (commitments s (msg_sender e))"
  shows "commitPrediction e v p a pp ap s =
           Inl (if currentPhase s \<noteq> BlindCommitment then InvalidPhaseForOperation
                else if \<not> block_timestamp e < commitmentDeadline s then CommitmentPeriodEnded
                else AlreadyCommitted)"
  using assms by (simp add: commitPrediction_def)

text \<open>
  Claim C5, as amended. A commit from an address that already has a stored commitment
  always fails and leaves the market unchanged, whatever the arguments and the attached
  value. The error is AlreadyCommitted when the call is made in phase BlindCommitment
  before the commitment deadline; after the deadline the earlier guard answers
  "Commitment period has ended", and in a later phase the phase guard answers.
\<close>

theorem C5_second_commit_fails:
  assumes "hasCommitted (commitments s (msg_sender e))"
  shows "commitPrediction e v p a pp ap s =
           Inl (if currentPhase s \<noteq> BlindCommitment then InvalidPhaseForOperation
                else if \<not> block_timestamp e < commitmentDeadline s then CommitmentPeriodEnded
                else AlreadyCommitted)
       \<and> fst (transact e (CommitPrediction v p a pp ap) s) = s"
  using commitPrediction_second [OF assms, of v p a pp ap] by (simp add: transact_def)

theorem C5_second_commit_fails_witness:
  "hasCommitted (commitments exampleCommitted (msg_sender (plainEnv 2 3000)))
   \<and> commitPrediction (plainEnv 2 3000) 5 0 7 True True exampleCommitted = Inl AlreadyCommitted
   \<and> fst (transact (plainEnv 2 3000) (CommitPrediction 5 0 7 True True) exampleCommitted)
       = exampleCommitted"
proof -
  have h: "hasCommitted (commitments exampleCommitted (msg_sender (plainEnv 2 3000)))"
    by (simp add: exampleCommitted_def plainEnv_def)
  show ?thesis
    using C5_second_commit_fails [OF h, of 5 0 7 True True] h
    by (simp add: exampleCommitted_def exampleDeployed_def plainEnv_def)
qed

text \<open>
  The claim as stated fails after the deadline: Alice, who has committed, commits again at
  the deadline (time 4600) while the market is still in phase BlindCommitment, and the
  error is "Commitment period has ended".
\<close>

theorem C5_counterexample:
  "hasCommitted (commitments exampleCommitted (msg_sender (plainEnv 2 4600)))
   \<and> commitPrediction (plainEnv 2 4600) 1000000000000000000 1 1000000000000000000 True True
       exampleCommitted = Inl CommitmentPeriodEnded
   \<and> commitPrediction (plainEnv 2 4600) 1000000000000000000 1 1000000000000000000 True True
       exampleCommitted \<noteq> Inl AlreadyCommitted"
  by (simp add: commitPrediction_def exampleCommitted_def exampleDeployed_def plainEnv_def)

section \<open>Settlement by the price oracle\<close>

lemmas example_defs =
  exampleDeployed_def exampleCommitted_def exampleAggregated_def exampleAwaiting_def
  exampleRevealed_def

lemma priceRevealed_reached:
  "marketRun (plainEnv 1 1000) Price ''Will it rain?'' 3600 2592000 9 ETH 500000000000
      exampleBets (plainEnv 5 5000) 0 [2500000000000000000, 2000000000000000000] True
     = Inr priceRevealed"
  unfolding marketRun_def
  by (simp add: andThen_def constructor_def plainEnv_def exampleBets_def bet_def
        commitPrediction_def FHE_fromExternal_def emptyCommitment_def)
     (simp add: aggregateBets_def FHE_add_def FHE_mul_def FHE_sub_def FHE_asEuint64_def
        requestAggregateDecryption_def FHE_requestDecryption_def callbackAggregateDecryption_def
        FHE_checkSignatures_def abi_decode_uint64_uint64_def priceRevealed_def example_defs
        emptyCommitment_def)

lemma priceSettled_reached:
  "settlePriceMarket (oracleEnv 5 2596700) priceRevealed = Inr priceSettled"
  by (simp add: settlePriceMarket_def oracleEnv_def PriceOracle_getPrice_def examplePrices_def
      MAX_PRICE_AGE_def priceRevealed_def priceSettled_def example_defs)

lemma settlePriceMarket_success:
  assumes "settlePriceMarket e s = Inr s'"
  shows "marketType s = Price" and "\<not> isSettled s" and "eventDeadline s \<le> block_timestamp e"
    and "currentPhase s = Settled" and "totalYesAmount s \<noteq> 0 \<or> totalNoAmount s \<noteq> 0"
    and "\<exists>currentPrice ts. getPrice e (targetAsset s) = Inr (currentPrice, ts)
           \<and> s' = s\<lparr>finalOutcome := targetPrice s \<le> currentPrice, isSettled := True\<rparr>"
  using assms
  by (auto simp: settlePriceMarket_def word_greater_zero_iff
        split: if_splits sum.splits prod.splits)

text \<open>
  Claim C7. A successful \<open>settlePriceMarket\<close> was called on a Price market that was not
  settled, at or after the event deadline, in phase Settled, with a nonzero total on at
  least one side; the oracle answered with a price, and the call changes nothing but
  \<open>finalOutcome\<close>, set to whether that price is at least the target price, and
  \<open>isSettled\<close>, set at once.
\<close>

theorem C7_settlePriceMarket:
  assumes "settlePriceMarket e s = Inr s'"
  shows "marketType s = Price \<and> \<not> isSettled s \<and> eventDeadline s \<le> block_timestamp e
       \<and> currentPhase s = Settled \<and> (totalYesAmount s \<noteq> 0 \<or> totalNoAmount s \<noteq> 0)
       \<and> (\<exists>currentPrice ts. getPrice e (targetAsset s) = Inr (currentPrice, ts)
             \<and> (finalOutcome s' \<longleftrightarrow> targetPrice s \<le> currentPrice)
             \<and> s' = s\<lparr>finalOutcome := targetPrice s \<le> currentPrice, isSettled := True\<rparr>)
       \<and> isSettled s'"
  using settlePriceMarket_success [OF assms] by auto

theorem C7_settlePriceMarket_witness:
  "settlePriceMarket (oracleEnv 5 2596700) priceRevealed = Inr priceSettled
   \<and> marketType priceRevealed = Price \<and> currentPhase priceRevealed = Settled
   \<and> getPrice (oracleEnv 5 2596700) (targetAsset priceRevealed) = Inr (520000000000, 2596000)
   \<and> targetPrice priceRevealed \<le> 520000000000
   \<and> finalOutcome priceSettled \<and> isSettled priceSettled"
proof -
  note r = priceSettled_reached
  have a: "marketType priceRevealed = Price \<and> currentPhase priceRevealed = Settled"
    by (simp add: priceRevealed_def example_defs)
  have b: "getPrice (oracleEnv 5 2596700) (targetAsset priceRevealed) = Inr (520000000000, 2596000)"
    by (simp add: oracleEnv_def PriceOracle_getPrice_def examplePrices_def MAX_PRICE_AGE_def
        priceRevealed_def example_defs)
  have c: "targetPrice priceRevealed \<le> 520000000000"
    by (simp add: priceRevealed_def example_defs)
  have d: "finalOutcome priceSettled \<and> isSettled priceSettled"
    using C7_settlePriceMarket [OF r] b c by auto
  show ?thesis using r a b c d by blast
qed

section \<open>The owner's stake\<close>

lemma smallRevealed_reached:
  "marketRun (plainEnv 1 1000) Event ''Will it rain?'' 3600 2592000 0 ETH 0
      smallBets (plainEnv 5 5000) 0 [15, 0] True
     = Inr smallRevealed"
  unfolding marketRun_def
  by (simp add: andThen_def constructor_def plainEnv_def smallBets_def bet_def
        commitPrediction_def FHE_fromExternal_def emptyCommitment_def)
     (simp add: aggregateBets_def FHE_add_def FHE_mul_def FHE_sub_def FHE_asEuint64_def
        requestAggregateDecryption_def FHE_requestDecryption_def callbackAggregateDecryption_def
        FHE_checkSignatures_def abi_decode_uint64_uint64_def smallRevealed_def example_defs
        emptyCommitment_def)

lemma depositOwnerStake_succeeds_iff:
  assumes "msg_sender e = owner s" and "currentPhase s = Settled" and "marketType s = Event"
    and "ownerStake s = 0" and "\<not> isSettlementProposed s"
  shows "succeeds (depositOwnerStake e v s) \<longleftrightarrow>
           unat (totalYesAmount s) + unat (totalNoAmount s) < 2 ^ 256
           \<and> (unat (totalYesAmount s) + unat (totalNoAmount s)) div 10 \<le> unat v"
proof (cases "unat (totalYesAmount s) + unat (totalNoAmount s) < 2 ^ 256")
  case False
  then show ?thesis using assms by (simp add: depositOwnerStake_def succeeds_def)
next
  case True
  then have sum: "unat (totalYesAmount s + totalNoAmount s)
                    = unat (totalYesAmount s) + unat (totalNoAmount s)"
    using unat_add_lem [of "totalYesAmount s" "totalNoAmount s"] by simp
  have "unat ((totalYesAmount s + totalNoAmount s) div 10)
          = (unat (totalYesAmount s) + unat (totalNoAmount s)) div 10"
    by (simp add: unat_div sum)
  then show ?thesis
    using assms True by (simp add: depositOwnerStake_def succeeds_def Let_def word_le_nat_alt)
qed

text \<open>
  Claim C8, as amended. For the owner of an Event market in phase Settled with no stake
  and no proposal, \<open>depositOwnerStake\<close> succeeds exactly when the attached value is at
  least the integer quotient of the pool \<open>totalYesAmount + totalNoAmount\<close> by 10 (the
  sum being formed in checked 256-bit arithmetic, which the 64-bit totals never exceed).
\<close>

theorem C8_stake_floor:
  assumes "msg_sender e = owner s" and "currentPhase s = Settled" and "marketType s = Event"
    and "ownerStake s = 0" and "\<not> isSettlementProposed s"
  shows "succeeds (depositOwnerStake e v s) \<longleftrightarrow>
           unat (totalYesAmount s) + unat (totalNoAmount s) < 2 ^ 256
           \<and> (unat (totalYesAmount s) + unat (totalNoAmount s)) div 10 \<le> unat v"
  using depositOwnerStake_succeeds_iff [OF assms] .

theorem C8_stake_floor_witness:
  "msg_sender (plainEnv 1 6000) = owner exampleRevealed
   \<and> currentPhase exampleRevealed = Settled \<and> marketType exampleRevealed = Event
   \<and> ownerStake exampleRevealed = 0 \<and> \<not> isSettlementProposed exampleRevealed
   \<and> succeeds (depositOwnerStake (plainEnv 1 6000) 450000000000000000 exampleRevealed)
   \<and> \<not> succeeds (depositOwnerStake (plainEnv 1 6000) 449999999999999999 exampleRevealed)"
proof -
  have h: "msg_sender (plainEnv 1 6000) = owner exampleRevealed"
    "currentPhase exampleRevealed = Settled" "marketType exampleRevealed = Event"
    "ownerStake exampleRevealed = 0" "\<not> isSettlementProposed exampleRevealed"
    by (simp_all add: plainEnv_def example_defs)
  have t: "unat (totalYesAmount exampleRevealed) = 2500000000000000000"
    "unat (totalNoAmount exampleRevealed) = 2000000000000000000"
    by (simp_all add: example_defs)
  show ?thesis
    using C8_stake_floor [OF h, of 450000000000000000]
      C8_stake_floor [OF h, of 449999999999999999] h
    by (simp add: t)
qed

text \<open>
  The claim as stated fails when the pool is not a multiple of 10: with a pool of 15 wei
  the owner's deposit of 1 wei succeeds, although 10% of the pool is 1.5 wei.
\<close>

theorem C8_counterexample:
  "msg_sender (plainEnv 1 6000) = owner smallRevealed
   \<and> currentPhase smallRevealed = Settled \<and> marketType smallRevealed = Event
   \<and> ownerStake smallRevealed = 0 \<and> \<not> isSettlementProposed smallRevealed
   \<and> succeeds (depositOwnerStake (plainEnv 1 6000) 1 smallRevealed)
   \<and> \<not> (real (unat (1 :: uint256))
          \<ge> (real (unat (totalYesAmount smallRevealed))
               + real (unat (totalNoAmount smallRevealed))) / 10)"
  by (simp add: depositOwnerStake_def succeeds_def plainEnv_def smallRevealed_def
      exampleDeployed_def)

section \<open>The encrypted amount and the attached value\<close>

lemma commitPrediction_accepts:
  assumes "currentPhase s = BlindCommitment" and "block_timestamp e < commitmentDeadline s"
    and "\<not> hasCommitted (commitments s (msg_sender e))" and "0 < v"
    and "marketType s = Event \<longrightarrow> msg_sender e \<noteq> owner s"
  shows "commitPrediction e v p a True True s =
           Inr (s\<lparr>commitments := (commitments s)(msg_sender e :=
                      \<lparr>encryptedPrediction = p, encryptedAmount = a, hasCommitted = True\<rparr>),
                  participants := participants s @ [msg_sender e],
                  balance := balance s + v\<rparr>)"
  using assms by (simp add: commitPrediction_def FHE_fromExternal_def)

text \<open>
  Claim C10. Where the guards on phase, deadline, first commit and owner exclusion let a
  call through, a commit with any strictly positive attached value and any pair of
  ciphertexts with valid proofs succeeds, stores the two ciphertexts as given and adds the
  attached value to the balance: the amount inside the commitment is not compared with the
  value. In particular there is a successful commit whose stored amount differs from the
  ether received with it.
\<close>

theorem C10_amount_unrelated_to_value:
  assumes "currentPhase s = BlindCommitment" and "block_timestamp e < commitmentDeadline s"
    and "\<not> hasCommitted (commitments s (msg_sender e))" and "0 < v"
    and "marketType s = Event \<longrightarrow> msg_sender e \<noteq> owner s"
  shows "(\<exists>s'. commitPrediction e v p a True True s = Inr s'
            \<and> commitments s' (msg_sender e) =
                \<lparr>encryptedPrediction = p, encryptedAmount = a, hasCommitted = True\<rparr>
            \<and> balance s' = balance s + v)
       \<and> (\<exists>e0 v0 p0 a0 s0 s1. commitPrediction e0 v0 p0 a0 True True s0 = Inr s1
            \<and> unat (encryptedAmount (commitments s1 (msg_sender e0))) \<noteq> unat v0
            \<and> balance s1 = balance s0 + v0)"
proof
  show "\<exists>s'. commitPrediction e v p a True True s = Inr s'
            \<and> commitments s' (msg_sender e) =
                \<lparr>encryptedPrediction = p, encryptedAmount = a, hasCommitted = True\<rparr>
            \<and> balance s' = balance s + v"
    by (simp add: commitPrediction_accepts [OF assms])
  have "commitPrediction (plainEnv 2 2000) 1 1 1000000000000000000 True True exampleDeployed
          = Inr (exampleDeployed\<lparr>commitments := (commitments exampleDeployed)(2 :=
                      \<lparr>encryptedPrediction = 1, encryptedAmount = 1000000000000000000,
                       hasCommitted = True\<rparr>),
                  participants := participants exampleDeployed @ [2],
                  balance := balance exampleDeployed + 1\<rparr>)"
    by (simp add: commitPrediction_def FHE_fromExternal_def plainEnv_def exampleDeployed_def
        emptyCommitment_def)
  then show "\<exists>e0 v0 p0 a0 s0 s1. commitPrediction e0 v0 p0 a0 True True s0 = Inr s1
            \<and> unat (encryptedAmount (commitments s1 (msg_sender e0))) \<noteq> unat v0
            \<and> balance s1 = balance s0 + v0"
    by (intro exI [of _ "plainEnv 2 2000"] exI [of _ "1 :: uint256"] exI [of _ "1 :: uint8"]
          exI [of _ "1000000000000000000 :: uint64"] exI [of _ exampleDeployed] exI)
       (auto simp: plainEnv_def)
qed

theorem C10_amount_unrelated_to_value_witness:
  "currentPhase exampleDeployed = BlindCommitment
   \<and> block_timestamp (plainEnv 2 2000) < commitmentDeadline exampleDeployed
   \<and> \<not> hasCommitted (commitments exampleDeployed (msg_sender (plainEnv 2 2000)))
   \<and> (0 :: uint256) < 1
   \<and> msg_sender (plainEnv 2 2000) \<noteq> owner exampleDeployed
   \<and> (\<exists>s'. commitPrediction (plainEnv 2 2000) 1 1 1000000000000000000 True True exampleDeployed
              = Inr s'
          \<and> unat (encryptedAmount (commitments s' 2)) = 1000000000000000000
          \<and> balance s' = balance exampleDeployed + 1)"
proof -
  have h: "currentPhase exampleDeployed = BlindCommitment"
    "block_timestamp (plainEnv 2 2000) < commitmentDeadline exampleDeployed"
    "\<not> hasCommitted (commitments exampleDeployed (msg_sender (plainEnv 2 2000)))"
    "(0 :: uint256) < 1"
    "marketType exampleDeployed = Event \<longrightarrow> msg_sender (plainEnv 2 2000) \<noteq> owner exampleDeployed"
    by (simp_all add: plainEnv_def exampleDeployed_def emptyCommitment_def)
  have s2: "msg_sender (plainEnv 2 2000) = 2" by (simp add: plainEnv_def)
  have ne: "msg_sender (plainEnv 2 2000) \<noteq> owner exampleDeployed"
    by (simp add: plainEnv_def exampleDeployed_def)
  from C10_amount_unrelated_to_value [OF h, of 1 1000000000000000000]
  obtain s' where
    "commitPrediction (plainEnv 2 2000) 1 1 1000000000000000000 True True exampleDeployed = Inr s'"
    "commitments s' (msg_sender (plainEnv 2 2000)) =
       \<lparr>encryptedPrediction = 1, encryptedAmount = 1000000000000000000, hasCommitted = True\<rparr>"
    "balance s' = balance exampleDeployed + 1"
    by blast
  then show ?thesis using h(1-4) ne by (auto simp: s2)
qed

section \<open>Claims\<close>

lemmas price_defs = priceRevealed_def priceSettled_def example_defs

lemma aliceRequested_reached: "claimRewards (plainEnv 2 2597000) priceSettled = Inr aliceRequested"
  by (simp add: claimRewards_def FHE_requestDecryption_def plainEnv_def aliceRequested_def
      price_defs)

lemma bobRequested_reached: "claimRewards (plainEnv 3 2597100) aliceRequested = Inr bobRequested"
  by (simp add: claimRewards_def FHE_requestDecryption_def plainEnv_def aliceRequested_def
      bobRequested_def price_defs)

lemma alicePaid_reached:
  "callbackClaimRewards (plainEnv 8 2597200) 1 [1, 1000000000000000000] True aliceRequested
     = Inr alicePaid"
  by (simp add: callbackClaimRewards_def FHE_checkSignatures_def abi_decode_uint8_uint64_def
      won_def plainEnv_def aliceRequested_def alicePaid_def price_defs)

lemma unat_ucast_64_256_mult:
  assumes "unat (ucast (a :: 64 word) :: 256 word) * unat (b :: 256 word) < 2 ^ 256"
  shows "unat ((ucast a :: 256 word) * b) = unat a * unat b"
  using assms unat_mult_lem [of "ucast a :: 256 word" b] by (simp add: unat_ucast_64_256)

lemma callbackClaimRewards_success:
  assumes "callbackClaimRewards e requestId cleartexts decryptionProof s = Inr s'"
  shows "\<exists>prediction amount payout.
           abi_decode_uint8_uint64 cleartexts = Inr (prediction, amount)
         \<and> won prediction (finalOutcome s)
         \<and> currentPhase s = Settled \<and> isSettled s
         \<and> FHE_checkSignatures requestId cleartexts decryptionProof s = None
         \<and> claimant s requestId \<noteq> 0
         \<and> \<not> hasClaimed s (claimant s requestId)
         \<and> totalWinningAmount s \<noteq> 0
         \<and> unat payout = unat amount * unat (balance s) div unat (totalWinningAmount s)
         \<and> payout \<le> balance s
         \<and> s' = s\<lparr>hasClaimed := (hasClaimed s)(claimant s requestId := True),
                   balance := balance s - payout,
                   transfers := (claimant s requestId, payout) # transfers s\<rparr>"
proof -
  from assms obtain prediction amount where
    dec: "abi_decode_uint8_uint64 cleartexts = Inr (prediction, amount)"
    by (auto simp: callbackClaimRewards_def Let_def
          split: if_splits option.splits sum.splits prod.splits)
  let ?payout = "((ucast amount :: uint256) * balance s) div totalWinningAmount s"
  from assms dec have
    g: "won prediction (finalOutcome s)" "currentPhase s = Settled" "isSettled s"
      "FHE_checkSignatures requestId cleartexts decryptionProof s = None"
      "claimant s requestId \<noteq> 0" "\<not> hasClaimed s (claimant s requestId)"
      "totalWinningAmount s \<noteq> 0"
      "unat (ucast amount :: uint256) * unat (balance s) < 2 ^ 256"
      "?payout \<le> balance s"
    and s': "s' = s\<lparr>hasClaimed := (hasClaimed s)(claimant s requestId := True),
                   balance := balance s - ?payout,
                   transfers := (claimant s requestId, ?payout) # transfers s\<rparr>"
    by (auto simp: callbackClaimRewards_def Let_def claimant_def totalWinningAmount_def
          not_less not_le
          split: if_splits option.splits)
  have "unat ?payout = unat amount * unat (balance s) div unat (totalWinningAmount s)"
    by (simp add: unat_div unat_ucast_64_256_mult [OF g(8)])
  with dec g s' show ?thesis by blast
qed



section \<open>Losing claims and second claims\<close>

lemma callbackClaimRewards_lost:
  assumes "currentPhase s = Settled" and "isSettled s"
    and "FHE_checkSignatures requestId cleartexts decryptionProof s = None"
    and "claimant s requestId \<noteq> 0" and "\<not> hasClaimed s (claimant s requestId)"
    and "abi_decode_uint8_uint64 cleartexts = Inr (prediction, amount)"
    and "\<not> won prediction (finalOutcome s)"
  shows "callbackClaimRewards e requestId cleartexts decryptionProof s = Inl YouLost"
  using assms by (simp add: callbackClaimRewards_def claimant_def Let_def)

lemma callbackClaimRewards_never_lost:
  assumes "abi_decode_uint8_uint64 cleartexts = Inr (prediction, amount)"
    and "\<not> won prediction (finalOutcome s)"
  shows "\<not> succeeds (callbackClaimRewards e requestId cleartexts decryptionProof s)"
proof
  assume "succeeds (callbackClaimRewards e requestId cleartexts decryptionProof s)"
  then obtain s' where "callbackClaimRewards e requestId cleartexts decryptionProof s = Inr s'"
    by (auto simp: succeeds_def split: sum.splits)
  from callbackClaimRewards_success [OF this] assms show False by auto
qed

lemma exec_claim_flags:
  assumes "exec e op s = Inr s'"
  shows "hasClaimed s u \<longrightarrow> hasClaimed s' u" and "isSettled s \<longrightarrow> isSettled s'"
  using assms
  by (cases op;
      auto simp: operation_defs Let_def split: if_splits sum.splits option.splits prod.splits)+

lemma run_claim_flags:
  "(hasClaimed s u \<longrightarrow> hasClaimed (run txs s) u) \<and> (isSettled s \<longrightarrow> isSettled (run txs s))"
proof (induction txs arbitrary: s)
  case Nil
  show ?case by simp
next
  case (Cons tx txs)
  obtain e op where tx: "tx = (e, op)" by (cases tx)
  let ?s1 = "fst (transact e op s)"
  have "(hasClaimed s u \<longrightarrow> hasClaimed ?s1 u) \<and> (isSettled s \<longrightarrow> isSettled ?s1)"
  proof (cases "exec e op s")
    case (Inl err)
    then show ?thesis by (simp add: transact_def)
  next
    case (Inr s')
    then show ?thesis using exec_claim_flags(1) [OF Inr, of u] exec_claim_flags(2) [OF Inr]
      by (simp add: transact_def)
  qed
  then show ?case using Cons.IH [of ?s1] by (simp add: tx)
qed

lemma claimed_stays_claimed:
  assumes "currentPhase s = Settled" and "isSettled s" and "hasClaimed s u"
  shows "hasClaimed (run txs s) u"
    and "msg_sender e = u \<Longrightarrow> claimRewards e (run txs s) = Inl AlreadyClaimedRewards"
    and "callbackClaimRewards e requestId cleartexts decryptionProof (run txs s) = Inr t
           \<Longrightarrow> claimant (run txs s) requestId \<noteq> u"
proof -
  have p: "currentPhase (run txs s) = Settled" using run_Settled_totals [OF assms(1)] by simp
  have i: "isSettled (run txs s)" using run_claim_flags [of s u txs] assms(2) by simp
  show c: "hasClaimed (run txs s) u" using run_claim_flags [of s u txs] assms(3) by simp
  show "msg_sender e = u \<Longrightarrow> claimRewards e (run txs s) = Inl AlreadyClaimedRewards"
    using p i c by (simp add: claimRewards_def)
  show "callbackClaimRewards e requestId cleartexts decryptionProof (run txs s) = Inr t
           \<Longrightarrow> claimant (run txs s) requestId \<noteq> u"
    using callbackClaimRewards_success [of e requestId cleartexts decryptionProof "run txs s" t] c
    by auto
qed

lemma ucast_8_256_8: "(ucast (ucast (w :: 8 word) :: 256 word) :: 8 word) = w"
  by (rule ucast_up_ucast_id) (simp add: is_up)

lemma claimRewards_request:
  assumes "claimRewards e s = Inr s1"
  shows "requestedHandles s1 (claimRequestIds s1 (msg_sender e)) =
           [ucast (encryptedPrediction (commitments s (msg_sender e))),
            ucast (encryptedAmount (commitments s (msg_sender e)))]"
    and "finalOutcome s1 = finalOutcome s"
  using assms
  by (auto simp: claimRewards_def FHE_requestDecryption_def split: if_splits)

lemma lost_claim_never_succeeds:
  assumes "claimRewards e s = Inr s1"
    and "\<not> won (encryptedPrediction (commitments s (msg_sender e))) (finalOutcome s)"
  shows "\<not> succeeds (callbackClaimRewards e' (claimRequestIds s1 (msg_sender e))
                        cleartexts decryptionProof s1)"
proof
  assume "succeeds (callbackClaimRewards e' (claimRequestIds s1 (msg_sender e))
                      cleartexts decryptionProof s1)"
  then obtain s2 where
    "callbackClaimRewards e' (claimRequestIds s1 (msg_sender e)) cleartexts decryptionProof s1
       = Inr s2"
    by (auto simp: succeeds_def split: sum.splits)
  from callbackClaimRewards_success [OF this] obtain prediction amount where
    dec: "abi_decode_uint8_uint64 cleartexts = Inr (prediction, amount)" and
    w: "won prediction (finalOutcome s1)" and
    sig: "FHE_checkSignatures (claimRequestIds s1 (msg_sender e)) cleartexts decryptionProof s1
            = None"
    by blast
  note req = claimRewards_request [OF assms(1)]
  from sig have "cleartexts = [ucast (encryptedPrediction (commitments s (msg_sender e))),
                               ucast (encryptedAmount (commitments s (msg_sender e)))]"
    by (auto simp: FHE_checkSignatures_def req(1) split: if_splits)
  with dec have "prediction = encryptedPrediction (commitments s (msg_sender e))"
    by (auto simp: abi_decode_uint8_uint64_def ucast_8_256_8 split: if_splits)
  with w assms(2) req(2) show False by simp
qed

text \<open>
  What the claim callback does guarantee. A callback for a participant who is not yet
  marked, whose decoded prediction does not match \<open>finalOutcome\<close>, fails with "You
  lost" and leaves the market as it was; no callback whose decoded prediction does not
  match succeeds; and when a participant whose stored prediction does not match requests a
  claim, no callback bearing the id of that request succeeds. After a successful claim
  callback, whatever transactions follow, the participant it paid stays marked, every
  \<open>claimRewards\<close> call of theirs fails with "Already claimed rewards", and no
  successful callback resolves to them again.
\<close>

lemma claim_callback_guarantees:
  "(currentPhase s = Settled \<and> isSettled s
      \<and> FHE_checkSignatures requestId cleartexts decryptionProof s = None
      \<and> claimant s requestId \<noteq> 0 \<and> \<not> hasClaimed s (claimant s requestId)
      \<and> abi_decode_uint8_uint64 cleartexts = Inr (prediction, amount)
      \<and> \<not> won prediction (finalOutcome s)
    \<longrightarrow> callbackClaimRewards e requestId cleartexts decryptionProof s = Inl YouLost
        \<and> transact e (CallbackClaimRewards requestId cleartexts decryptionProof) s
            = (s, Some YouLost))
   \<and> (abi_decode_uint8_uint64 cleartexts = Inr (prediction, amount)
      \<and> \<not> won prediction (finalOutcome s)
    \<longrightarrow> \<not> succeeds (callbackClaimRewards e requestId cleartexts decryptionProof s))
   \<and> (claimRewards e4 s4 = Inr s5
      \<and> \<not> won (encryptedPrediction (commitments s4 (msg_sender e4))) (finalOutcome s4)
    \<longrightarrow> \<not> succeeds (callbackClaimRewards e5 (claimRequestIds s5 (msg_sender e4))
                        cleartexts5 proof5 s5))
   \<and> (callbackClaimRewards e1 requestId1 cleartexts1 proof1 s1 = Inr s2
    \<longrightarrow> hasClaimed (run txs s2) (claimant s1 requestId1)
        \<and> (msg_sender e3 = claimant s1 requestId1
             \<longrightarrow> claimRewards e3 (run txs s2) = Inl AlreadyClaimedRewards)
        \<and> (callbackClaimRewards e3 requestId3 cleartexts3 proof3 (run txs s2) = Inr t
             \<longrightarrow> claimant (run txs s2) requestId3 \<noteq> claimant s1 requestId1))"
proof (intro conjI impI)
  assume a: "currentPhase s = Settled \<and> isSettled s
      \<and> FHE_checkSignatures requestId cleartexts decryptionProof s = None
      \<and> claimant s requestId \<noteq> 0 \<and> \<not> hasClaimed s (claimant s requestId)
      \<and> abi_decode_uint8_uint64 cleartexts = Inr (prediction, amount)
      \<and> \<not> won prediction (finalOutcome s)"
  then show l: "callbackClaimRewards e requestId cleartexts decryptionProof s = Inl YouLost"
    using callbackClaimRewards_lost by blast
  then show "transact e (CallbackClaimRewards requestId cleartexts decryptionProof) s
            = (s, Some YouLost)"
    by (simp add: transact_def)
next
  assume "abi_decode_uint8_uint64 cleartexts = Inr (prediction, amount)
      \<and> \<not> won prediction (finalOutcome s)"
  then show "\<not> succeeds (callbackClaimRewards e requestId cleartexts decryptionProof s)"
    using callbackClaimRewards_never_lost by blast
next
  assume "claimRewards e4 s4 = Inr s5
      \<and> \<not> won (encryptedPrediction (commitments s4 (msg_sender e4))) (finalOutcome s4)"
  then show "\<not> succeeds (callbackClaimRewards e5 (claimRequestIds s5 (msg_sender e4))
                        cleartexts5 proof5 s5)"
    using lost_claim_never_succeeds by blast
next
  assume ok: "callbackClaimRewards e1 requestId1 cleartexts1 proof1 s1 = Inr s2"
  from callbackClaimRewards_success [OF ok] have
    st: "currentPhase s2 = Settled" "isSettled s2" "hasClaimed s2 (claimant s1 requestId1)"
    by auto
  note after = claimed_stays_claimed [OF st]
  show "hasClaimed (run txs s2) (claimant s1 requestId1)" by (rule after(1))
  show "claimRewards e3 (run txs s2) = Inl AlreadyClaimedRewards"
    if "msg_sender e3 = claimant s1 requestId1" using that by (rule after(2))
  show "claimant (run txs s2) requestId3 \<noteq> claimant s1 requestId1"
    if "callbackClaimRewards e3 requestId3 cleartexts3 proof3 (run txs s2) = Inr t"
    using that by (rule after(3))
qed

lemma claim_callback_guarantees_example:
  "(currentPhase bobRequested = Settled \<and> isSettled bobRequested
      \<and> FHE_checkSignatures 2 [0, 2000000000000000000] True bobRequested = None
      \<and> claimant bobRequested 2 = 3 \<and> \<not> hasClaimed bobRequested 3
      \<and> abi_decode_uint8_uint64 [0, 2000000000000000000] = Inr (0, 2000000000000000000)
      \<and> \<not> won 0 (finalOutcome bobRequested)
      \<and> callbackClaimRewards (plainEnv 8 2597300) 2 [0, 2000000000000000000] True bobRequested
          = Inl YouLost
      \<and> transact (plainEnv 8 2597300) (CallbackClaimRewards 2 [0, 2000000000000000000] True)
          bobRequested = (bobRequested, Some YouLost))
   \<and> claimRewards (plainEnv 3 2597100) aliceRequested = Inr bobRequested
   \<and> encryptedPrediction (commitments aliceRequested 3) = 0 \<and> finalOutcome aliceRequested
   \<and> claimRequestIds bobRequested 3 = 2
   \<and> \<not> succeeds (callbackClaimRewards (plainEnv 8 2597300) 2 [1, 2000000000000000000] True
                    bobRequested)
   \<and> callbackClaimRewards (plainEnv 8 2597200) 1 [1, 1000000000000000000] True aliceRequested
       = Inr alicePaid
   \<and> claimant aliceRequested 1 = 2
   \<and> hasClaimed (run [(plainEnv 2 2597400, ClaimRewards)] alicePaid) 2
   \<and> claimRewards (plainEnv 2 2597500) (run [(plainEnv 2 2597400, ClaimRewards)] alicePaid)
       = Inl AlreadyClaimedRewards"
proof -
  have b: "currentPhase bobRequested = Settled \<and> isSettled bobRequested
      \<and> FHE_checkSignatures 2 [0, 2000000000000000000] True bobRequested = None
      \<and> claimant bobRequested 2 \<noteq> 0 \<and> \<not> hasClaimed bobRequested (claimant bobRequested 2)
      \<and> abi_decode_uint8_uint64 [0, 2000000000000000000] = Inr (0, 2000000000000000000)
      \<and> \<not> won 0 (finalOutcome bobRequested)"
    and c3: "claimant bobRequested 2 = 3"
    by (simp_all add: FHE_checkSignatures_def claimant_def abi_decode_uint8_uint64_def won_def
        bobRequested_def aliceRequested_def price_defs)
  have c2: "claimant aliceRequested 1 = 2"
    by (simp add: claimant_def aliceRequested_def price_defs)
  have m: "msg_sender (plainEnv 2 2597500) = claimant aliceRequested 1"
    by (simp add: c2 plainEnv_def)
  have q: "\<not> won (encryptedPrediction (commitments aliceRequested (msg_sender (plainEnv 3 2597100))))
                  (finalOutcome aliceRequested)"
    and q': "encryptedPrediction (commitments aliceRequested 3) = 0" "finalOutcome aliceRequested"
      "claimRequestIds bobRequested (msg_sender (plainEnv 3 2597100)) = 2"
      "claimRequestIds bobRequested 3 = 2"
    by (simp_all add: won_def plainEnv_def bobRequested_def aliceRequested_def price_defs)
  note inst = claim_callback_guarantees [of bobRequested 2 "[0, 2000000000000000000]" True 0
      2000000000000000000 "plainEnv 8 2597300" "plainEnv 3 2597100" aliceRequested bobRequested
      "plainEnv 8 2597300" "[1, 2000000000000000000]" True
      "plainEnv 8 2597200" 1 "[1, 1000000000000000000]" True aliceRequested alicePaid
      "[(plainEnv 2 2597400, ClaimRewards)]" "plainEnv 2 2597500"]
  have lost: "\<not> succeeds (callbackClaimRewards (plainEnv 8 2597300) 2 [1, 2000000000000000000]
                    True bobRequested)"
    using inst bobRequested_reached q q'(3) by simp
  show ?thesis using inst b c3 c2 m alicePaid_reached bobRequested_reached q' lost by simp
qed

section \<open>A losing participant paid through request id 0\<close>

lemma loserRevealed_reached:
  "marketRun (plainEnv 1 1000) Price ''Will it rain?'' 3600 2592000 9 ETH 500000000000
      loserBets (plainEnv 5 5000) 0 [1, 1] True
     = Inr loserRevealed"
  unfolding marketRun_def
  by (simp add: andThen_def constructor_def plainEnv_def loserBets_def bet_def
        commitPrediction_def FHE_fromExternal_def emptyCommitment_def)
     (simp add: aggregateBets_def FHE_add_def FHE_mul_def FHE_sub_def FHE_asEuint64_def
        requestAggregateDecryption_def FHE_requestDecryption_def callbackAggregateDecryption_def
        FHE_checkSignatures_def abi_decode_uint64_uint64_def loserRevealed_def
        exampleDeployed_def emptyCommitment_def)

lemma loserSettled_reached:
  "settlePriceMarket (oracleEnv 5 2596700) loserRevealed = Inr loserSettled"
  by (simp add: settlePriceMarket_def oracleEnv_def PriceOracle_getPrice_def examplePrices_def
      MAX_PRICE_AGE_def loserRevealed_def loserSettled_def exampleDeployed_def)

lemma loserPaid_reached:
  "callbackClaimRewards (plainEnv 2 2597000) 0 [1, 1] True loserSettled = Inr loserPaid"
  by (simp add: callbackClaimRewards_def FHE_checkSignatures_def abi_decode_uint8_uint64_def
      won_def plainEnv_def loserPaid_def loserSettled_def loserRevealed_def exampleDeployed_def)

text \<open>
  Claim C6 says that a claim by a participant whose decrypted prediction does not match
  \<open>finalOutcome\<close> always fails with "You lost", transfers nothing and leaves
  \<open>hasClaimed\<close> false for them. The code breaks it. The stored claim-request id of a
  participant who never asked is the default 0, which is also the id of the aggregate
  decryption request; the callback looks the participant up by id and decodes the
  cleartexts it is given, it never reads the participant's commitment. In the market
  below YES has won and Alice's stored prediction is NO; she runs the claim callback with
  id 0 and the disclosed totals (1, 1), which pass the signature check of request 0 and
  decode as prediction 1, amount 1: the callback succeeds, marks her as having claimed and
  pays her the whole balance.
\<close>

theorem C6_loser_paid:
  "marketRun (plainEnv 1 1000) Price ''Will it rain?'' 3600 2592000 9 ETH 500000000000
      loserBets (plainEnv 5 5000) 0 [1, 1] True
     = Inr loserRevealed
   \<and> settlePriceMarket (oracleEnv 5 2596700) loserRevealed = Inr loserSettled
   \<and> finalOutcome loserSettled
   \<and> hasCommitted (commitments loserSettled 2)
   \<and> encryptedPrediction (commitments loserSettled 2) = 0
   \<and> \<not> won (encryptedPrediction (commitments loserSettled 2)) (finalOutcome loserSettled)
   \<and> claimRequestIds loserSettled 2 = 0
   \<and> \<not> hasClaimed loserSettled 2
   \<and> balance loserSettled = 2
   \<and> callbackClaimRewards (plainEnv 2 2597000) 0 [1, 1] True loserSettled = Inr loserPaid
   \<and> hasClaimed loserPaid 2
   \<and> transfers loserPaid = [(2, 2)]
   \<and> balance loserPaid = 0"
  by (simp add: loserRevealed_reached loserSettled_reached loserPaid_reached)
     (simp add: won_def loserPaid_def loserSettled_def loserRevealed_def exampleDeployed_def)

section \<open>Repeated claim requests\<close>

lemma unat_max_256: "unat (- 1 :: 256 word) = 2 ^ 256 - 1"
  by (simp add: unsigned_minus_1_eq_mask mask_eq_exp_minus_1)

lemma unat_add_of_nat_256:
  assumes "unat (c :: 256 word) + k < 2 ^ 256"
  shows "unat (c + of_nat k) = unat c + k"
proof -
  have k: "unat (of_nat k :: 256 word) = k"
    using assms by (simp add: unsigned_of_nat take_bit_nat_eq_self)
  show ?thesis
    using assms unat_add_lem [of c "of_nat k :: 256 word"] by (simp add: k)
qed

lemma findUser_none:
  "\<forall>p \<in> set ps. ids p \<noteq> requestId \<Longrightarrow> findUser ids requestId ps = 0"
  by (induction ps) auto

lemma claimRewards_effect:
  assumes "currentPhase s = Settled" and "isSettled s" and "\<not> hasClaimed s (msg_sender e)"
    and "hasCommitted (commitments s (msg_sender e))" and "unat (counterRequest s) + 1 < 2 ^ 256"
  shows "claimRewards e s =
           Inr (s\<lparr>requestedHandles := (requestedHandles s)(counterRequest s :=
                     [ucast (encryptedPrediction (commitments s (msg_sender e))),
                      ucast (encryptedAmount (commitments s (msg_sender e)))]),
                  counterRequest := counterRequest s + 1,
                  claimRequestIds := (claimRequestIds s)(msg_sender e := counterRequest s)\<rparr>)"
proof -
  have "counterRequest s \<noteq> - 1"
    using assms(5) unat_max_256 by auto
  then show ?thesis
    using assms(1-4) by (simp add: claimRewards_def FHE_requestDecryption_def)
qed

lemma claimTimes_effect:
  assumes "currentPhase s = Settled" and "isSettled s" and "\<not> hasClaimed s (msg_sender e)"
    and "hasCommitted (commitments s (msg_sender e))" and "unat (counterRequest s) + n < 2 ^ 256"
  shows "\<exists>s'. claimTimes n e s = Inr s'
           \<and> currentPhase s' = Settled \<and> isSettled s'
           \<and> participants s' = participants s
           \<and> balance s' = balance s \<and> transfers s' = transfers s
           \<and> hasClaimed s' = hasClaimed s
           \<and> unat (counterRequest s') = unat (counterRequest s) + n
           \<and> (\<forall>p. p \<noteq> msg_sender e \<longrightarrow> claimRequestIds s' p = claimRequestIds s p)
           \<and> (0 < n \<longrightarrow> claimRequestIds s' (msg_sender e) = counterRequest s + of_nat (n - 1))"
  using assms
proof (induction n arbitrary: s)
  case 0
  then show ?case by simp
next
  case (Suc n)
  let ?s1 = "s\<lparr>requestedHandles := (requestedHandles s)(counterRequest s :=
                     [ucast (encryptedPrediction (commitments s (msg_sender e))),
                      ucast (encryptedAmount (commitments s (msg_sender e)))]),
                  counterRequest := counterRequest s + 1,
                  claimRequestIds := (claimRequestIds s)(msg_sender e := counterRequest s)\<rparr>"
  have small: "unat (counterRequest s) + 1 < 2 ^ 256" using Suc.prems(5) by simp
  have step: "claimRewards e s = Inr ?s1"
    by (rule claimRewards_effect [OF Suc.prems(1-4) small])
  have c1: "unat (counterRequest ?s1) = unat (counterRequest s) + 1"
    using unat_add_of_nat_256 [of "counterRequest s" 1] small by simp
  have pre: "currentPhase ?s1 = Settled" "isSettled ?s1" "\<not> hasClaimed ?s1 (msg_sender e)"
    "hasCommitted (commitments ?s1 (msg_sender e))" "unat (counterRequest ?s1) + n < 2 ^ 256"
    using Suc.prems c1 by simp_all
  from Suc.IH [OF pre] obtain s' where
    r: "claimTimes n e ?s1 = Inr s'" and
    k: "currentPhase s' = Settled" "isSettled s'" "participants s' = participants ?s1"
       "balance s' = balance ?s1" "transfers s' = transfers ?s1" "hasClaimed s' = hasClaimed ?s1"
       "unat (counterRequest s') = unat (counterRequest ?s1) + n"
       "\<forall>p. p \<noteq> msg_sender e \<longrightarrow> claimRequestIds s' p = claimRequestIds ?s1 p"
       "0 < n \<longrightarrow> claimRequestIds s' (msg_sender e) = counterRequest ?s1 + of_nat (n - 1)"
    by blast
  have last: "claimRequestIds s' (msg_sender e) = counterRequest s + of_nat n"
  proof (cases n)
    case 0
    with r have "s' = ?s1" by simp
    then show ?thesis using 0 by simp
  next
    case (Suc m)
    with k(9) show ?thesis by (simp add: add.assoc)
  qed
  have "claimTimes (Suc n) e s = Inr s'" using step r by simp
  moreover have "unat (counterRequest s') = unat (counterRequest s) + Suc n"
    using k(7) c1 by simp
  moreover have "\<forall>p. p \<noteq> msg_sender e \<longrightarrow> claimRequestIds s' p = claimRequestIds s p"
    using k(8) by simp
  ultimately show ?case using k(1-6) last by simp
qed

lemma stale_id_unknown:
  assumes "currentPhase s = Settled" and "isSettled s"
    and "\<forall>p \<in> set (participants s). claimRequestIds s p \<noteq> requestId"
  shows "callbackClaimRewards e requestId cleartexts decryptionProof s =
           Inl (case FHE_checkSignatures requestId cleartexts decryptionProof s of
                  None \<Rightarrow> UserNotFound | Some err \<Rightarrow> err)"
  using assms findUser_none [of "participants s" "claimRequestIds s" requestId]
  by (simp add: callbackClaimRewards_def Let_def split: option.splits)

lemma unat_succ_256:
  assumes "(c :: 256 word) \<noteq> - 1"
  shows "unat (c + 1) = Suc (unat c)"
proof -
  have "unat c \<noteq> unat (- 1 :: 256 word)" using assms by (simp add: word_unat_eq_iff)
  moreover have "unat c < 2 ^ 256" using unsigned_less [of c, where 'a=nat] by simp
  ultimately have "unat c + 1 < 2 ^ 256" by (simp add: unat_max_256)
  then show ?thesis using unat_add_of_nat_256 [of c 1] by simp
qed

lemma constructor_idsInv:
  "constructor e mt descr cd ed oracle asset target = Inr s \<Longrightarrow> idsInv s"
  by (auto simp: constructor_def idsInv_def split: if_splits)

lemma FHE_requestDecryption_counter:
  assumes "FHE_requestDecryption cts s = Inr (requestId, s1)"
  shows "requestId = counterRequest s" and "unat (counterRequest s1) = Suc (unat (counterRequest s))"
    and "claimRequestIds s1 = claimRequestIds s" and "currentPhase s1 = currentPhase s"
  using assms by (auto simp: FHE_requestDecryption_def unat_succ_256 split: if_splits)

lemma requestAggregateDecryption_idsInv:
  assumes "requestAggregateDecryption s = Inr s'" and "idsInv s"
  shows "idsInv s'"
proof -
  from assms(1) obtain requestId s1 where
    r: "FHE_requestDecryption [ucast (encryptedTotalYes s), ucast (encryptedTotalNo s)] s
          = Inr (requestId, s1)"
    and s': "s' = s1\<lparr>aggregateDecryptionRequestId := requestId, currentPhase := AwaitingDecryption\<rparr>"
    by (auto simp: requestAggregateDecryption_def split: if_splits sum.splits)
  note c = FHE_requestDecryption_counter [OF r]
  have "counterRequest s1 \<noteq> 0" using c(2) by auto
  then show ?thesis using assms(2) c by (auto simp: idsInv_def s')
qed

lemma claimRewards_idsInv:
  assumes "claimRewards e s = Inr s'" and "idsInv s"
  shows "idsInv s'"
proof -
  from assms(1) obtain requestId s1 where
    r: "FHE_requestDecryption
          [ucast (encryptedPrediction (commitments s (msg_sender e))),
           ucast (encryptedAmount (commitments s (msg_sender e)))] s = Inr (requestId, s1)"
    and s': "s' = s1\<lparr>claimRequestIds := (claimRequestIds s1)(msg_sender e := requestId)\<rparr>"
    by (auto simp: claimRewards_def split: if_splits sum.splits)
  note c = FHE_requestDecryption_counter [OF r]
  have "counterRequest s1 \<noteq> 0" using c(2) by auto
  then show ?thesis using assms(2) c by (auto simp: idsInv_def s')
qed

lemma exec_idsInv:
  assumes "exec e op s = Inr s'" and "idsInv s"
  shows "idsInv s'"
proof (cases op)
  case RequestAggregateDecryption
  then show ?thesis using assms requestAggregateDecryption_idsInv by simp
next
  case ClaimRewards
  then show ?thesis using assms claimRewards_idsInv by simp
qed (use assms in \<open>auto simp: commitPrediction_def aggregateBets_def
        callbackAggregateDecryption_def depositOwnerStake_def proposeSettlement_def
        finalizeSettlement_def challengeSettlement_def settlePriceMarket_def
        callbackClaimRewards_def FHE_fromExternal_def idsInv_def Let_def
        split: if_splits sum.splits option.splits prod.splits\<close>)

lemma reachable_idsInv: "reachable s \<Longrightarrow> idsInv s"
  by (induction rule: reachable.induct) (auto intro: constructor_idsInv exec_idsInv)

lemma reachable_Settled_idsIssued:
  assumes "reachable s" and "currentPhase s = Settled"
  shows "idsIssued s"
proof -
  have i: "idsInv s" by (rule reachable_idsInv [OF assms(1)])
  then have pos: "0 < unat (counterRequest s)"
    using assms(2) by (auto simp: idsInv_def unat_gt_0)
  show ?thesis
    unfolding idsIssued_def
  proof (rule ballI)
    fix p
    from i have "claimRequestIds s p = 0 \<or> unat (claimRequestIds s p) < unat (counterRequest s)"
      by (simp add: idsInv_def)
    then show "unat (claimRequestIds s p) < unat (counterRequest s)"
      using pos by (elim disjE) simp_all
  qed
qed

lemma commitAll_reachable: "reachable s \<Longrightarrow> commitAll cs s = Inr s' \<Longrightarrow> reachable s'"
proof (induction cs arbitrary: s)
  case Nil
  then show ?case by simp
next
  case (Cons c cs)
  from Cons.prems(2) obtain s1 where
    a: "exec (call_env c) (CommitPrediction (call_value c) (call_prediction c) (call_amount c)
             (call_predictionProof c) (call_amountProof c)) s = Inr s1"
    and b: "commitAll cs s1 = Inr s'"
    by (auto split: sum.splits)
  from reachable.step [OF Cons.prems(1) a] b show ?case by (rule Cons.IH)
qed

lemma marketRun_reachable:
  assumes "marketRun e0 mt descr cd ed orc asset tp cs e1 requestId cleartexts prf = Inr s"
  shows "reachable s"
proof -
  from assms obtain s0 s1 s2 s3 where
    c0: "constructor e0 mt descr cd ed orc asset tp = Inr s0" and
    c1: "commitAll cs s0 = Inr s1" and
    c2: "exec e1 AggregateBets s1 = Inr s2" and
    c3: "exec e1 RequestAggregateDecryption s2 = Inr s3" and
    c4: "exec e1 (CallbackAggregateDecryption requestId cleartexts prf) s3 = Inr s"
    by (auto simp: marketRun_def andThen_def split: sum.splits)
  have "reachable s1" using reachable.deployed [OF c0] c1 by (rule commitAll_reachable)
  then show ?thesis using c2 c3 c4 by (blast intro: reachable.step)
qed

lemma priceSettled_reachable: "reachable priceSettled"
proof -
  have "exec (oracleEnv 5 2596700) SettlePriceMarket priceRevealed = Inr priceSettled"
    using priceSettled_reached by simp
  with marketRun_reachable [OF priceRevealed_reached] show ?thesis by (rule reachable.step)
qed

text \<open>
  Claim C9. In every settled market the contract can reach, a participant with an
  unclaimed commitment can call \<open>claimRewards\<close> any number of times (as long as the
  request counter does not run out): every call succeeds and stores the newly issued id
  for the caller, nothing is paid, and afterwards a callback bearing any of the ids issued
  to the caller before the last one fails, with "User not found for request" once the
  signature check has passed (and with the signature check's error otherwise).
\<close>

theorem C9_repeated_claim_requests:
  assumes "currentPhase s = Settled" and "isSettled s" and "\<not> hasClaimed s (msg_sender e)"
    and "hasCommitted (commitments s (msg_sender e))" and "reachable s"
    and "unat (counterRequest s) + n < 2 ^ 256"
  shows "(\<forall>m. 0 < m \<and> m \<le> n \<longrightarrow>
            (\<exists>t. claimTimes m e s = Inr t
               \<and> claimRequestIds t (msg_sender e) = counterRequest s + of_nat (m - 1)))
       \<and> (\<exists>s'. claimTimes n e s = Inr s'
            \<and> balance s' = balance s \<and> transfers s' = transfers s
            \<and> (\<forall>k. k + 1 < n \<longrightarrow>
                 callbackClaimRewards e' (counterRequest s + of_nat k) cleartexts decryptionProof s' =
                   Inl (case FHE_checkSignatures (counterRequest s + of_nat k) cleartexts
                               decryptionProof s' of
                          None \<Rightarrow> UserNotFound | Some err \<Rightarrow> err)))"
proof (intro conjI allI impI)
  fix m assume m: "0 < m \<and> m \<le> n"
  then have "unat (counterRequest s) + m < 2 ^ 256" using assms(6) by simp
  from claimTimes_effect [OF assms(1-4) this] m
  show "\<exists>t. claimTimes m e s = Inr t
          \<and> claimRequestIds t (msg_sender e) = counterRequest s + of_nat (m - 1)"
    by blast
next
  from claimTimes_effect [OF assms(1-4,6)] obtain s' where
    r: "claimTimes n e s = Inr s'" and
    k: "currentPhase s' = Settled" "isSettled s'" "participants s' = participants s"
       "balance s' = balance s" "transfers s' = transfers s"
       "\<forall>p. p \<noteq> msg_sender e \<longrightarrow> claimRequestIds s' p = claimRequestIds s p"
       "0 < n \<longrightarrow> claimRequestIds s' (msg_sender e) = counterRequest s + of_nat (n - 1)"
    by blast
  have stale: "callbackClaimRewards e' (counterRequest s + of_nat k) cleartexts decryptionProof s' =
                 Inl (case FHE_checkSignatures (counterRequest s + of_nat k) cleartexts
                             decryptionProof s' of
                        None \<Rightarrow> UserNotFound | Some err \<Rightarrow> err)"
    if kn: "k + 1 < n" for k
  proof (rule stale_id_unknown [OF k(1,2)], rule ballI)
    fix p assume p: "p \<in> set (participants s')"
    have uk: "unat (counterRequest s + of_nat k) = unat (counterRequest s) + k"
      using assms(6) kn by (intro unat_add_of_nat_256) simp
    show "claimRequestIds s' p \<noteq> counterRequest s + of_nat k"
    proof (cases "p = msg_sender e")
      case True
      have "unat (counterRequest s + of_nat (n - 1)) = unat (counterRequest s) + (n - 1)"
        using assms(6) by (intro unat_add_of_nat_256) simp
      then have "unat (claimRequestIds s' p) \<noteq> unat (counterRequest s + of_nat k)"
        using k(7) kn True uk by simp
      then show ?thesis by auto
    next
      case False
      then have "unat (claimRequestIds s' p) < unat (counterRequest s)"
        using k(6) k(3) p reachable_Settled_idsIssued [OF assms(5) assms(1)]
        by (simp add: idsIssued_def)
      then have "unat (claimRequestIds s' p) \<noteq> unat (counterRequest s + of_nat k)"
        using uk by simp
      then show ?thesis by auto
    qed
  qed
  show "\<exists>s'. claimTimes n e s = Inr s'
            \<and> balance s' = balance s \<and> transfers s' = transfers s
            \<and> (\<forall>k. k + 1 < n \<longrightarrow>
                 callbackClaimRewards e' (counterRequest s + of_nat k) cleartexts decryptionProof s' =
                   Inl (case FHE_checkSignatures (counterRequest s + of_nat k) cleartexts
                               decryptionProof s' of
                          None \<Rightarrow> UserNotFound | Some err \<Rightarrow> err))"
    using r k(4,5) stale by blast
qed

lemma aliceAskedThrice_reached:
  "claimTimes 3 (plainEnv 2 2597000) priceSettled = Inr aliceAskedThrice"
  by (simp add: numeral_3_eq_3 claimRewards_def FHE_requestDecryption_def plainEnv_def
      aliceAskedThrice_def price_defs)

theorem C9_repeated_claim_requests_witness:
  "currentPhase priceSettled = Settled \<and> isSettled priceSettled
   \<and> \<not> hasClaimed priceSettled (msg_sender (plainEnv 2 2597000))
   \<and> hasCommitted (commitments priceSettled (msg_sender (plainEnv 2 2597000)))
   \<and> claimRequestIds priceSettled 2 = 0 \<and> claimRequestIds priceSettled 3 = 0
   \<and> claimRequestIds priceSettled 4 = 0 \<and> counterRequest priceSettled = 1
   \<and> claimTimes 3 (plainEnv 2 2597000) priceSettled = Inr aliceAskedThrice
   \<and> claimRequestIds aliceAskedThrice 2 = 3
   \<and> transfers aliceAskedThrice = transfers priceSettled
   \<and> callbackClaimRewards (plainEnv 8 2597500) 1 [1, 1000000000000000000] True aliceAskedThrice
       = Inl UserNotFound"
proof -
  have h: "currentPhase priceSettled = Settled" "isSettled priceSettled"
    "\<not> hasClaimed priceSettled (msg_sender (plainEnv 2 2597000))"
    "hasCommitted (commitments priceSettled (msg_sender (plainEnv 2 2597000)))"
    "reachable priceSettled"
    "unat (counterRequest priceSettled) + 3 < 2 ^ 256"
    by (rule priceSettled_reachable | simp add: plainEnv_def price_defs)+
  from C9_repeated_claim_requests [OF h, of "plainEnv 8 2597500" "[1, 1000000000000000000]" True]
  obtain s' where
    r: "claimTimes 3 (plainEnv 2 2597000) priceSettled = Inr s'" and
    t: "transfers s' = transfers priceSettled" and
    st: "\<forall>k. k + 1 < 3 \<longrightarrow>
           callbackClaimRewards (plainEnv 8 2597500) (counterRequest priceSettled + of_nat k)
               [1, 1000000000000000000] True s' =
             Inl (case FHE_checkSignatures (counterRequest priceSettled + of_nat k)
                         [1, 1000000000000000000] True s' of
                    None \<Rightarrow> UserNotFound | Some err \<Rightarrow> err)"
    by blast
  have s': "s' = aliceAskedThrice" using r aliceAskedThrice_reached by simp
  have c: "counterRequest priceSettled = 1" by (simp add: price_defs)
  have sig: "FHE_checkSignatures 1 [1, 1000000000000000000] True aliceAskedThrice = None"
    by (simp add: FHE_checkSignatures_def aliceAskedThrice_def)
  have "callbackClaimRewards (plainEnv 8 2597500) 1 [1, 1000000000000000000] True aliceAskedThrice
          = Inl UserNotFound"
    using st [rule_format, of 0] by (simp add: s' c sig)
  moreover have "claimRequestIds aliceAskedThrice 2 = 3" by (simp add: aliceAskedThrice_def)
  moreover have "claimRequestIds priceSettled 2 = 0 \<and> claimRequestIds priceSettled 3 = 0
      \<and> claimRequestIds priceSettled 4 = 0"
    by (simp add: price_defs)
  ultimately show ?thesis using h(1-4) c aliceAskedThrice_reached t s' by simp
qed

end
